theory Spec2Isabelle
  imports Main "HOL-Library.Word"
begin

unbundle bit_operations_syntax

section \<open>The concurrent queue (internal/queue/queue.go)\<close>

text \<open>
  A \<open>context.Context\<close> is represented by the value of \<open>ctx.Err()\<close>: \<open>None\<close> while the
  context is live (the channel \<open>ctx.Done()\<close> is open), \<open>Some e\<close> once it is done.
\<close>

datatype ctx_error = Canceled | DeadlineExceeded

type_synonym Context = "ctx_error option"

text \<open>
  \<open>InMemoryQueue[T]\<close>: the slice \<open>items\<close> and the condition variable \<open>cond\<close>, whose
  state is the list of goroutines parked in \<open>cond.Wait()\<close>, oldest first. The mutex is
  not a field of the model: every function below is one critical section, executed
  atomically (\<open>cond.Wait()\<close> releases the mutex and parks in one step).
\<close>

record 'a InMemoryQueue =
  items :: "'a list"
  cond :: "nat list"

definition NewInMemoryQueue :: "'a InMemoryQueue" where
  "NewInMemoryQueue = \<lparr>items = [], cond = []\<rparr>"

text \<open>\<open>sync.Cond\<close>: \<open>Signal\<close> releases the longest-parked goroutine, if any;
  \<open>Broadcast\<close> releases all of them.\<close>

definition Signal :: "nat list \<Rightarrow> nat list" where
  "Signal ws = (case ws of [] \<Rightarrow> [] | w # rest \<Rightarrow> rest)"

definition Broadcast :: "nat list \<Rightarrow> nat list" where
  "Broadcast ws = []"

text \<open>\<open>Enqueue\<close>: append, signal, return \<open>nil\<close>. The context argument is not read.\<close>

definition Enqueue :: "Context \<Rightarrow> 'a \<Rightarrow> 'a InMemoryQueue \<Rightarrow> ctx_error option \<times> 'a InMemoryQueue" where
  "Enqueue ctx item q = (None, q\<lparr>items := items q @ [item], cond := Signal (cond q)\<rparr>)"

text \<open>
  \<open>Dequeue\<close>, run by goroutine \<open>g\<close> from the head of its \<open>for\<close> loop with the mutex held,
  up to the point where it gives the mutex up: it returns the first item when there is
  one; on an empty slice it returns \<open>ctx.Err()\<close> when the context is done, and otherwise
  parks in \<open>cond.Wait()\<close> (\<open>Waiting\<close>: the call has not returned). A goroutine released
  from \<open>cond.Wait()\<close> takes the mutex again and is back at the head of the loop.
\<close>

datatype 'a dequeue_result = Item 'a | Failed ctx_error | Waiting

definition Dequeue :: "nat \<Rightarrow> Context \<Rightarrow> 'a InMemoryQueue \<Rightarrow> 'a dequeue_result \<times> 'a InMemoryQueue" where
  "Dequeue g ctx q =
     (case items q of
        [] \<Rightarrow> (case ctx of
                 Some e \<Rightarrow> (Failed e, q)
               | None \<Rightarrow> (Waiting, q\<lparr>cond := cond q @ [g]\<rparr>))
      | item # rest \<Rightarrow> (Item item, q\<lparr>items := rest\<rparr>))"

definition Size :: "'a InMemoryQueue \<Rightarrow> nat" where
  "Size q = length (items q)"

text \<open>\<open>Close\<close>: broadcast, return \<open>nil\<close>. Nothing records that the queue was closed.\<close>

definition Close :: "'a InMemoryQueue \<Rightarrow> ctx_error option \<times> 'a InMemoryQueue" where
  "Close q = (None, q\<lparr>cond := Broadcast (cond q)\<rparr>)"

subsection \<open>A producer and a single consumer, run one after the other\<close>

fun enqueue_all :: "Context \<Rightarrow> 'a list \<Rightarrow> 'a InMemoryQueue \<Rightarrow> 'a InMemoryQueue" where
  "enqueue_all ctx [] q = q"
| "enqueue_all ctx (x # xs) q = enqueue_all ctx xs (snd (Enqueue ctx x q))"

text \<open>\<open>n\<close> calls of \<open>Dequeue\<close> by the one consumer \<open>g\<close>; a call that parks ends the run,
  since no other goroutine is there to wake the consumer.\<close>

fun dequeue_n :: "nat \<Rightarrow> nat \<Rightarrow> Context \<Rightarrow> 'a InMemoryQueue \<Rightarrow> 'a dequeue_result list \<times> 'a InMemoryQueue" where
  "dequeue_n 0 g ctx q = ([], q)"
| "dequeue_n (Suc n) g ctx q =
     (case Dequeue g ctx q of
        (Waiting, q') \<Rightarrow> ([Waiting], q')
      | (r, q') \<Rightarrow> (case dequeue_n n g ctx q' of (rs, q'') \<Rightarrow> (r # rs, q'')))"

subsection \<open>Goroutines sharing one queue\<close>

text \<open>
  The state of a consumer goroutine that has called \<open>Dequeue\<close>: \<open>Ready\<close> at the head of
  the loop (waiting for the mutex), \<open>Parked\<close> inside \<open>cond.Wait()\<close>, or returned with an
  item or with the context's error.
\<close>

datatype 'a status = Ready | Parked | Got 'a | Cancelled ctx_error

record 'a system =
  queue :: "'a InMemoryQueue"
  shared_ctx :: Context
  consumers :: "'a status list"

datatype 'a event =
    CallEnqueue 'a
  | CallClose
  | CallDequeue
  | Cancel
  | Run nat

text \<open>The goroutines that left the condition variable's list are runnable again.\<close>

definition released :: "nat list \<Rightarrow> nat list \<Rightarrow> 'a status list \<Rightarrow> 'a status list" where
  "released before after sts =
     map (\<lambda>(g, st). if List.member before g \<and> \<not> List.member after g then Ready else st)
       (zip [0..<length sts] sts)"

fun step :: "'a event \<Rightarrow> 'a system \<Rightarrow> 'a system" where
  "step (CallEnqueue x) s =
     (case Enqueue (shared_ctx s) x (queue s) of
        (err, q') \<Rightarrow> s\<lparr>queue := q', consumers := released (cond (queue s)) (cond q') (consumers s)\<rparr>)"
| "step CallClose s =
     (case Close (queue s) of
        (err, q') \<Rightarrow> s\<lparr>queue := q', consumers := released (cond (queue s)) (cond q') (consumers s)\<rparr>)"
| "step CallDequeue s = s\<lparr>consumers := consumers s @ [Ready]\<rparr>"
| "step Cancel s = s\<lparr>shared_ctx := (case shared_ctx s of None \<Rightarrow> Some Canceled | Some e \<Rightarrow> Some e)\<rparr>"
| "step (Run g) s =
     (if g < length (consumers s) then
        (case consumers s ! g of
           Ready \<Rightarrow>
             (case Dequeue g (shared_ctx s) (queue s) of
                (Item x, q') \<Rightarrow> s\<lparr>queue := q', consumers := (consumers s)[g := Got x]\<rparr>
              | (Failed e, q') \<Rightarrow> s\<lparr>queue := q', consumers := (consumers s)[g := Cancelled e]\<rparr>
              | (Waiting, q') \<Rightarrow> s\<lparr>queue := q', consumers := (consumers s)[g := Parked]\<rparr>)
         | _ \<Rightarrow> s)
      else s)"

fun run :: "'a event list \<Rightarrow> 'a system \<Rightarrow> 'a system" where
  "run [] s = s"
| "run (e # es) s = run es (step e s)"

definition init :: "'a system" where
  "init = \<lparr>queue = NewInMemoryQueue, shared_ctx = None, consumers = []\<rparr>"

text \<open>Events that neither signal nor broadcast on the condition variable.\<close>

fun quiet :: "'a event \<Rightarrow> bool" where
  "quiet (CallEnqueue x) = False"
| "quiet CallClose = False"
| "quiet CallDequeue = True"
| "quiet Cancel = True"
| "quiet (Run g) = True"

text \<open>A consumer that has called \<open>Dequeue\<close> and has not returned.\<close>

fun pending :: "'a status \<Rightarrow> bool" where
  "pending Ready = True"
| "pending Parked = True"
| "pending (Got x) = False"
| "pending (Cancelled e) = False"

text \<open>Events other than an enqueue and the cancellation.\<close>

fun no_item_no_cancel :: "'a event \<Rightarrow> bool" where
  "no_item_no_cancel (CallEnqueue x) = False"
| "no_item_no_cancel Cancel = False"
| "no_item_no_cancel CallClose = True"
| "no_item_no_cancel CallDequeue = True"
| "no_item_no_cancel (Run g) = True"

section \<open>The data model (internal/model)\<close>

type_synonym FileSource = string
type_synonym FileType = string
type_synonym TerraformObjectType = string
type_synonym Time = int

definition FileTypeTerraform :: FileType where "FileTypeTerraform = ''tf''"
definition FileTypeState :: FileType where "FileTypeState = ''tfstate''"

definition ObjectTypeResource :: TerraformObjectType where "ObjectTypeResource = ''resource''"
definition ObjectTypeProvider :: TerraformObjectType where "ObjectTypeProvider = ''provider''"
definition ObjectTypeVariable :: TerraformObjectType where "ObjectTypeVariable = ''variable''"
definition ObjectTypeOutput :: TerraformObjectType where "ObjectTypeOutput = ''output''"
definition ObjectTypeModule :: TerraformObjectType where "ObjectTypeModule = ''module''"
definition ObjectTypeData :: TerraformObjectType where "ObjectTypeData = ''data''"

record TerraformFile =
  ID :: string
  Source :: FileSource
  SourcePath :: string
  FileType :: FileType
  Content :: string
  ContentHash :: string
  CollectedAt :: Time
  UpdatedAt :: Time

text \<open>
  Go's \<open>any\<close>, as far as this code fills it: a string (declarative-config parser) or a
  value produced by the JSON decoder (snapshot parser), of a type \<open>'j\<close> left open.
\<close>

datatype 'j any = AnyString string | AnyJSON 'j

record 'j TerraformObject =
  ID :: string
  FileID :: string
  Type :: TerraformObjectType
  Name :: string
  ResourceType :: string
  Configuration :: "string \<rightharpoonup> 'j any"
  Dependencies :: "string list"
  Address :: string
  Mode :: string
  ProviderName :: string
  SchemaVersion :: int
  SensitiveValues :: "string list"
  CreatedAt :: Time
  UpdatedAt :: Time

section \<open>The parser registry (internal/parser, Parser and ParserRegistry)\<close>

text \<open>
  The \<open>Parser\<close> interface. An implementation may have effects, so \<open>Parse\<close> takes and
  returns a state of the world \<open>'w\<close>; its result is the error or the object list.
\<close>

record ('e, 'j, 'w) Parser =
  Parse :: "Context \<Rightarrow> TerraformFile \<Rightarrow> 'w \<Rightarrow> ('e + 'j TerraformObject list) \<times> 'w"
  CanParse :: "FileType \<Rightarrow> bool"

record ('e, 'j, 'w) ParserRegistry =
  parsers :: "('e, 'j, 'w) Parser list"

definition NewParserRegistry :: "('e, 'j, 'w) ParserRegistry" where
  "NewParserRegistry = \<lparr>parsers = []\<rparr>"

definition Register :: "('e, 'j, 'w) Parser \<Rightarrow> ('e, 'j, 'w) ParserRegistry \<Rightarrow> ('e, 'j, 'w) ParserRegistry" where
  "Register parser r = r\<lparr>parsers := parsers r @ [parser]\<rparr>"

text \<open>
  \<open>ParserRegistry.Parse\<close>: the loop over \<open>r.parsers\<close>, from the parser at position \<open>i\<close>
  on. Besides the result it returns the method calls it made on the registered parsers,
  in order, each with the position of the parser called.
\<close>

datatype call = CallCanParse nat | CallParse nat

fun parse_loop ::
  "nat \<Rightarrow> ('e, 'j, 'w) Parser list \<Rightarrow> Context \<Rightarrow> TerraformFile \<Rightarrow> 'w
     \<Rightarrow> call list \<times> ('e + 'j TerraformObject list) \<times> 'w" where
  "parse_loop i [] ctx file w = ([], Inr [], w)"
| "parse_loop i (parser # rest) ctx file w =
     (if CanParse parser (FileType file)
      then (case Parse parser ctx file w of (res, w') \<Rightarrow> ([CallCanParse i, CallParse i], res, w'))
      else (case parse_loop (Suc i) rest ctx file w of
              (calls, res, w') \<Rightarrow> (CallCanParse i # calls, res, w')))"

definition ParserRegistry_Parse ::
  "('e, 'j, 'w) ParserRegistry \<Rightarrow> Context \<Rightarrow> TerraformFile \<Rightarrow> 'w
     \<Rightarrow> call list \<times> ('e + 'j TerraformObject list) \<times> 'w" where
  "ParserRegistry_Parse r ctx file w = parse_loop 0 (parsers r) ctx file w"

section \<open>Formatting and hashing (fmt, crypto/sha256)\<close>

text \<open>\<open>%d\<close> of an \<open>int\<close> and \<open>%x\<close> of a byte slice. Go strings are byte sequences; so are
  the strings here.\<close>

fun decimal :: "nat \<Rightarrow> string" where
  "decimal n = (if n < 10 then [char_of (48 + n)] else decimal (n div 10) @ [char_of (48 + n mod 10)])"

definition Sprintf_d :: "int \<Rightarrow> string" where
  "Sprintf_d i = (if i < 0 then CHR ''-'' # decimal (nat (- i)) else decimal (nat i))"

definition hex_digit :: "nat \<Rightarrow> char" where
  "hex_digit d = (if d < 10 then char_of (48 + d) else char_of (87 + d))"

definition Sprintf_x :: "8 word list \<Rightarrow> string" where
  "Sprintf_x bs = concat (map (\<lambda>b. [hex_digit (unat b div 16), hex_digit (unat b mod 16)]) bs)"

definition bytes :: "string \<Rightarrow> 8 word list" where
  "bytes s = map of_char s"

text \<open>SHA-256 (FIPS 180-4), the function behind \<open>sha256.New()\<close>, \<open>Write\<close> and \<open>Sum(nil)\<close>.\<close>

definition K256 :: "32 word list" where
  "K256 = [
   0x428A2F98, 0x71374491, 0xB5C0FBCF, 0xE9B5DBA5, 0x3956C25B, 0x59F111F1, 0x923F82A4, 0xAB1C5ED5,
   0xD807AA98, 0x12835B01, 0x243185BE, 0x550C7DC3, 0x72BE5D74, 0x80DEB1FE, 0x9BDC06A7, 0xC19BF174,
   0xE49B69C1, 0xEFBE4786, 0x0FC19DC6, 0x240CA1CC, 0x2DE92C6F, 0x4A7484AA, 0x5CB0A9DC, 0x76F988DA,
   0x983E5152, 0xA831C66D, 0xB00327C8, 0xBF597FC7, 0xC6E00BF3, 0xD5A79147, 0x06CA6351, 0x14292967,
   0x27B70A85, 0x2E1B2138, 0x4D2C6DFC, 0x53380D13, 0x650A7354, 0x766A0ABB, 0x81C2C92E, 0x92722C85,
   0xA2BFE8A1, 0xA81A664B, 0xC24B8B70, 0xC76C51A3, 0xD192E819, 0xD6990624, 0xF40E3585, 0x106AA070,
   0x19A4C116, 0x1E376C08, 0x2748774C, 0x34B0BCB5, 0x391C0CB3, 0x4ED8AA4A, 0x5B9CCA4F, 0x682E6FF3,
   0x748F82EE, 0x78A5636F, 0x84C87814, 0x8CC70208, 0x90BEFFFA, 0xA4506CEB, 0xBEF9A3F7, 0xC67178F2]"

definition H256 :: "32 word list" where
  "H256 = [0x6A09E667, 0xBB67AE85, 0x3C6EF372, 0xA54FF53A, 0x510E527F, 0x9B05688C, 0x1F83D9AB, 0x5BE0CD19]"

definition rotr :: "nat \<Rightarrow> 32 word \<Rightarrow> 32 word" where
  "rotr n x = (drop_bit n x) OR (push_bit (32 - n) x)"

definition bsig0 :: "32 word \<Rightarrow> 32 word" where "bsig0 x = rotr 2 x XOR rotr 13 x XOR rotr 22 x"
definition bsig1 :: "32 word \<Rightarrow> 32 word" where "bsig1 x = rotr 6 x XOR rotr 11 x XOR rotr 25 x"
definition ssig0 :: "32 word \<Rightarrow> 32 word" where "ssig0 x = rotr 7 x XOR rotr 18 x XOR drop_bit 3 x"
definition ssig1 :: "32 word \<Rightarrow> 32 word" where "ssig1 x = rotr 17 x XOR rotr 19 x XOR drop_bit 10 x"
definition ch :: "32 word \<Rightarrow> 32 word \<Rightarrow> 32 word \<Rightarrow> 32 word" where "ch x y z = (x AND y) XOR (NOT x AND z)"
definition maj :: "32 word \<Rightarrow> 32 word \<Rightarrow> 32 word \<Rightarrow> 32 word" where "maj x y z = (x AND y) XOR (x AND z) XOR (y AND z)"

text \<open>The message schedule; the list holds the words computed so far, newest first.\<close>

fun schedule :: "nat \<Rightarrow> 32 word list \<Rightarrow> 32 word list" where
  "schedule 0 w = w"
| "schedule (Suc n) w = schedule n ((ssig1 (w ! 1) + w ! 6 + ssig0 (w ! 14) + w ! 15) # w)"

fun rounds :: "32 word list \<Rightarrow> 32 word list \<Rightarrow> 32 word list \<Rightarrow> 32 word list" where
  "rounds [] ws st = st"
| "rounds (k # ks) ws st =
    (case (ws, st) of
       (w # ws', [a, b, c, d, e, f, g, h]) \<Rightarrow>
         (let t1 = h + bsig1 e + ch e f g + k + w;
              t2 = bsig0 a + maj a b c
          in rounds ks ws' [t1 + t2, a, b, c, d + t1, e, f, g])
     | _ \<Rightarrow> st)"

fun be32 :: "8 word list \<Rightarrow> 32 word list" where
  "be32 (a # b # c # d # rest) =
     (push_bit 24 (ucast a) OR push_bit 16 (ucast b) OR push_bit 8 (ucast c) OR ucast d) # be32 rest"
| "be32 _ = []"

definition compress :: "32 word list \<Rightarrow> 8 word list \<Rightarrow> 32 word list" where
  "compress st block = map2 (+) st (rounds K256 (rev (schedule 48 (rev (be32 block)))) st)"

fun blocks :: "nat \<Rightarrow> 32 word list \<Rightarrow> 8 word list \<Rightarrow> 32 word list" where
  "blocks 0 st bs = st"
| "blocks (Suc n) st bs = blocks n (compress st (take 64 bs)) (drop 64 bs)"

definition pad :: "8 word list \<Rightarrow> 8 word list" where
  "pad m = m @ [0x80] @ replicate ((119 - length m mod 64) mod 64) 0
           @ map (\<lambda>i. ucast (drop_bit (8 * (7 - i)) (word_of_nat (8 * length m) :: 64 word))) [0..<8]"

definition unbe32 :: "32 word \<Rightarrow> 8 word list" where
  "unbe32 w = [ucast (drop_bit 24 w), ucast (drop_bit 16 w), ucast (drop_bit 8 w), ucast w]"

definition sha256 :: "8 word list \<Rightarrow> 8 word list" where
  "sha256 m = concat (map unbe32 (blocks (length (pad m) div 64) H256 (pad m)))"

section \<open>The snapshot parser (StateParser)\<close>

text \<open>
  The wall clock: the readings that calls of \<open>time.Now()\<close> will return, from the next
  one on. A call takes the first reading and leaves the rest.
\<close>

type_synonym clock = "nat \<Rightarrow> Time"

definition time_Now :: "clock \<Rightarrow> Time \<times> clock" where
  "time_Now clk = (clk 0, \<lambda>n. clk (Suc n))"

datatype 'e parser_error =
    FailedToParseStateFile 'e
  | FailedToParseHCL string
  | FailedToParseContent string
  | UnknownBlockType string
  | FailedToGetAttributes string
  | IndexOutOfRange

record 'j StateInstance =
  SchemaVersion :: int
  Attributes :: "string \<rightharpoonup> 'j"
  SensitiveAttrs :: "string list"
  Dependencies :: "string list"

record 'j StateResource =
  Mode :: string
  Type :: string
  Name :: string
  Provider :: string
  Instances :: "'j StateInstance list"

record 'j TerraformState =
  Version :: int
  TerraformVersion :: string
  Serial :: int
  Lineage :: string
  Outputs :: "string \<rightharpoonup> 'j"
  Resources :: "'j StateResource list"

definition generateObjectID :: "string \<Rightarrow> string \<Rightarrow> string \<Rightarrow> int \<Rightarrow> string" where
  "generateObjectID fileID resourceType name index =
     Sprintf_x (take 8 (sha256 (bytes
       (fileID @ '':'' @ resourceType @ '':'' @ name @ '':'' @ Sprintf_d index))))"

text \<open>The first loop of \<open>extractProviderName\<close>, about to look at the bytes \<open>i - 1\<close> down to
  \<open>0\<close>: the position after the last \<open>/\<close>, if there is one.\<close>

fun last_slash :: "string \<Rightarrow> nat \<Rightarrow> nat option" where
  "last_slash provider 0 = None"
| "last_slash provider (Suc i) =
     (if provider ! i = CHR ''/'' then Some (Suc i) else last_slash provider i)"

text \<open>The second loop, at position \<open>i\<close>: the position of the first double quote or \<open>]\<close>
  from \<open>i\<close> on, or the length.\<close>

function first_close :: "string \<Rightarrow> nat \<Rightarrow> nat" where
  "first_close provider i =
     (if i < length provider
      then (if provider ! i = CHR 0x22 \<or> provider ! i = CHR '']'' then i
            else first_close provider (Suc i))
      else length provider)"
  by pat_completeness auto
termination
  by (relation "measure (\<lambda>(provider, i). length provider - i)") auto

definition extractProviderName :: "string \<Rightarrow> string" where
  "extractProviderName provider =
     (if length provider = 0 then []
      else
        (let start = (case last_slash provider (length provider) of
                        Some s \<Rightarrow> s
                      | None \<Rightarrow> length provider - 1);
             end' = first_close provider start
         in if start < end' then take (end' - start) (drop start provider) else provider))"

text \<open>The part of a string after its last \<open>/\<close> (the whole string when it has none), and
  the part of a string before its first double quote or \<open>]\<close>.\<close>

definition after_last_slash :: "string \<Rightarrow> string" where
  "after_last_slash provider = rev (takeWhile (\<lambda>c. c \<noteq> CHR ''/'') (rev provider))"

definition before_close :: "string \<Rightarrow> string" where
  "before_close s = takeWhile (\<lambda>c. c \<noteq> CHR 0x22 \<and> c \<noteq> CHR '']'') s"

text \<open>The part after the last \<open>/\<close>, cut before the first double quote or \<open>]\<close> in it;
  the whole string when nothing is left of it.\<close>

definition provider_name_cut :: "string \<Rightarrow> string" where
  "provider_name_cut provider =
     (if before_close (after_last_slash provider) = [] then provider
      else before_close (after_last_slash provider))"

definition StateParser_CanParse :: "FileType \<Rightarrow> bool" where
  "StateParser_CanParse fileType = (fileType = FileTypeState)"

text \<open>The object that \<open>StateParser.Parse\<close> builds for instance number \<open>i\<close> of a resource,
  with the two readings of \<open>time.Now()\<close>.\<close>

definition state_object ::
  "TerraformFile \<Rightarrow> 'j StateResource \<Rightarrow> nat \<Rightarrow> 'j StateInstance \<Rightarrow> Time \<Rightarrow> Time
     \<Rightarrow> 'j TerraformObject" where
  "state_object file resource i instance created updated =
     \<lparr>TerraformObject.ID =
        generateObjectID (TerraformFile.ID file) (StateResource.Type resource)
          (StateResource.Name resource) (int i),
      FileID = TerraformFile.ID file,
      TerraformObject.Type = ObjectTypeResource,
      TerraformObject.Name = StateResource.Name resource,
      ResourceType = StateResource.Type resource,
      Configuration = (\<lambda>k. map_option AnyJSON (Attributes instance k)),
      TerraformObject.Dependencies = [],
      Address = StateResource.Type resource @ ''.'' @ StateResource.Name resource,
      TerraformObject.Mode = StateResource.Mode resource,
      ProviderName = extractProviderName (Provider resource),
      TerraformObject.SchemaVersion = StateInstance.SchemaVersion instance,
      SensitiveValues = [],
      CreatedAt = created,
      TerraformObject.UpdatedAt = updated\<rparr>"

text \<open>The inner loop of \<open>StateParser.Parse\<close>, over the instances of one resource, from
  index \<open>i\<close>; the two calls of \<open>time.Now()\<close> are made in the order of the fields.\<close>

fun instances_loop ::
  "TerraformFile \<Rightarrow> 'j StateResource \<Rightarrow> nat \<Rightarrow> 'j StateInstance list
     \<Rightarrow> 'j TerraformObject list \<Rightarrow> clock \<Rightarrow> 'j TerraformObject list \<times> clock" where
  "instances_loop file resource i [] objects clk = (objects, clk)"
| "instances_loop file resource i (instance # rest) objects clk =
     (case time_Now clk of (created, clk1) \<Rightarrow>
      case time_Now clk1 of (updated, clk2) \<Rightarrow>
        instances_loop file resource (Suc i) rest
          (objects @ [state_object file resource i instance created updated]) clk2)"

fun resources_loop ::
  "TerraformFile \<Rightarrow> 'j StateResource list \<Rightarrow> 'j TerraformObject list \<Rightarrow> clock
     \<Rightarrow> 'j TerraformObject list \<times> clock" where
  "resources_loop file [] objects clk = (objects, clk)"
| "resources_loop file (resource # rest) objects clk =
     (case instances_loop file resource 0 (Instances resource) objects clk of
        (objects', clk') \<Rightarrow> resources_loop file rest objects' clk')"

text \<open>The resource block of each record that the snapshot parser emits for a document,
  in the order of the records: each block once for each of its instances.\<close>

definition record_blocks :: "'j TerraformState \<Rightarrow> 'j StateResource list" where
  "record_blocks state = concat (map (\<lambda>r. replicate (length (Instances r)) r) (Resources state))"

text \<open>
  \<open>StateParser.Parse\<close>. The JSON decoder \<open>json.Unmarshal\<close> (into a \<open>TerraformState\<close>) is a
  parameter: it gives the error, or the decoded document.
\<close>

definition StateParser_Parse ::
  "(string \<Rightarrow> 'e + 'j TerraformState) \<Rightarrow> Context \<Rightarrow> TerraformFile \<Rightarrow> clock
     \<Rightarrow> ('e parser_error + 'j TerraformObject list) \<times> clock" where
  "StateParser_Parse json_Unmarshal ctx file clk =
     (case json_Unmarshal (Content file) of
        Inl err \<Rightarrow> (Inl (FailedToParseStateFile err), clk)
      | Inr state \<Rightarrow>
          (case resources_loop file (Resources state) [] clk of
             (objects, clk') \<Rightarrow> (Inr objects, clk')))"

section \<open>The declarative-config parser (TerraformParser)\<close>

text \<open>
  \<open>hcl.Block\<close>, with the fields the parser reads, over a type \<open>'b\<close> of bodies.
\<close>

record 'b Block =
  Type :: string
  Labels :: "string list"
  Body :: 'b

type_synonym BlockHeaderSchema = "string \<times> string list"

text \<open>
  The operations of the HCL library that the parser calls, as parameters, over types of
  diagnostics \<open>'d\<close>, bodies \<open>'b\<close> and expressions \<open>'x\<close>: \<open>ParseHCL\<close> gives the body of the
  file and diagnostics, \<open>PartialContent\<close> the blocks of a body that match a schema and
  diagnostics, \<open>JustAttributes\<close> the attributes of a body (each name with the expression
  of the attribute) and diagnostics. Bodies and expressions are the syntax tree as the
  content determines it. Where the tree lies in memory is not determined by the content:
  every call of \<open>Parse\<close> makes a new parser, which builds a new tree, at a place \<open>'a\<close>
  that the allocator chooses. \<open>Sprintf_v\<close> is \<open>fmt.Sprintf("%v", expr)\<close>, which prints
  the pointers inside an expression as addresses: it depends on the place of the tree.
\<close>

record ('d, 'b, 'x, 'a) hcl =
  ParseHCL :: "string \<Rightarrow> string \<Rightarrow> 'b \<times> 'd"
  PartialContent :: "'b \<Rightarrow> BlockHeaderSchema list \<Rightarrow> 'b Block list \<times> 'd"
  JustAttributes :: "'b \<Rightarrow> (string \<rightharpoonup> 'x) \<times> 'd"
  HasErrors :: "'d \<Rightarrow> bool"
  Error :: "'d \<Rightarrow> string"
  Sprintf_v :: "'a \<Rightarrow> 'x \<Rightarrow> string"

definition TerraformParser_CanParse :: "FileType \<Rightarrow> bool" where
  "TerraformParser_CanParse fileType = (fileType = FileTypeTerraform)"

definition body_schema :: "BlockHeaderSchema list" where
  "body_schema =
     [(''resource'', [''type'', ''name'']),
      (''provider'', [''name'']),
      (''variable'', [''name'']),
      (''output'', [''name'']),
      (''module'', [''name'']),
      (''data'', [''type'', ''name''])]"

text \<open>\<open>extractSimpleValue\<close> returns the rendering of the expression and never an error.\<close>

definition extractSimpleValue ::
  "('d, 'b, 'x, 'a) hcl \<Rightarrow> 'a \<Rightarrow> 'x \<Rightarrow> 'e parser_error + 'j any" where
  "extractSimpleValue lib place expr = Inr (AnyString (Sprintf_v lib place expr))"

text \<open>
  The loop of \<open>extractConfiguration\<close> over the attributes, for a value extractor
  \<open>extract\<close>: the value when it gives one, the rendering of the expression when it
  fails. The resulting map does not depend on the order in which Go ranges over \<open>attrs\<close>.
\<close>

definition attributes_loop ::
  "('d, 'b, 'x, 'a) hcl \<Rightarrow> 'a \<Rightarrow> ('x \<Rightarrow> 'e parser_error + 'j any) \<Rightarrow> (string \<rightharpoonup> 'x)
     \<Rightarrow> (string \<rightharpoonup> 'j any)" where
  "attributes_loop lib place extract attrs =
     (\<lambda>name. case attrs name of
        None \<Rightarrow> None
      | Some expr \<Rightarrow>
          (case extract expr of
             Inr val \<Rightarrow> Some val
           | Inl err \<Rightarrow> Some (AnyString (Sprintf_v lib place expr))))"

text \<open>\<open>extractConfiguration\<close> returns the map together with the error (\<open>None\<close> for \<open>nil\<close>).\<close>

definition extractConfiguration ::
  "('d, 'b, 'x, 'a) hcl \<Rightarrow> 'a \<Rightarrow> 'b \<Rightarrow> (string \<rightharpoonup> 'j any) \<times> 'e parser_error option" where
  "extractConfiguration lib place body =
     (case JustAttributes lib body of
        (attrs, diags) \<Rightarrow>
          if HasErrors lib diags
          then (Map.empty, Some (FailedToGetAttributes (Error lib diags)))
          else (attributes_loop lib place
                  (extractSimpleValue lib place :: 'x \<Rightarrow> 'e parser_error + 'j any) attrs,
                None))"

text \<open>
  The \<open>switch\<close> of \<open>parseBlock\<close>: object type, name, resource type and address of a
  block. Reading a label that the block does not have panics (\<open>IndexOutOfRange\<close>).
\<close>

definition block_switch ::
  "'b Block \<Rightarrow> 'e parser_error + (TerraformObjectType \<times> string \<times> string \<times> string)" where
  "block_switch block =
     (if Block.Type block = ''resource'' then
        (case Labels block of
           resourceType # name # _ \<Rightarrow>
             Inr (ObjectTypeResource, name, resourceType, resourceType @ ''.'' @ name)
         | _ \<Rightarrow> Inl IndexOutOfRange)
      else if Block.Type block = ''provider'' then
        (case Labels block of
           name # _ \<Rightarrow> Inr (ObjectTypeProvider, name, [], ''provider.'' @ name)
         | _ \<Rightarrow> Inl IndexOutOfRange)
      else if Block.Type block = ''variable'' then
        (case Labels block of
           name # _ \<Rightarrow> Inr (ObjectTypeVariable, name, [], ''var.'' @ name)
         | _ \<Rightarrow> Inl IndexOutOfRange)
      else if Block.Type block = ''output'' then
        (case Labels block of
           name # _ \<Rightarrow> Inr (ObjectTypeOutput, name, [], ''output.'' @ name)
         | _ \<Rightarrow> Inl IndexOutOfRange)
      else if Block.Type block = ''module'' then
        (case Labels block of
           name # _ \<Rightarrow> Inr (ObjectTypeModule, name, [], ''module.'' @ name)
         | _ \<Rightarrow> Inl IndexOutOfRange)
      else if Block.Type block = ''data'' then
        (case Labels block of
           resourceType # name # _ \<Rightarrow>
             Inr (ObjectTypeData, name, resourceType, ''data.'' @ resourceType @ ''.'' @ name)
         | _ \<Rightarrow> Inl IndexOutOfRange)
      else Inl (UnknownBlockType (Block.Type block)))"

text \<open>The object that \<open>parseBlock\<close> builds from what the \<open>switch\<close> found, the
  configuration and the two readings of \<open>time.Now()\<close>.\<close>

definition block_object ::
  "string \<Rightarrow> TerraformObjectType \<times> string \<times> string \<times> string \<Rightarrow> (string \<rightharpoonup> 'j any)
     \<Rightarrow> Time \<Rightarrow> Time \<Rightarrow> 'j TerraformObject" where
  "block_object fileID found config created updated =
     (case found of
        (objectType, name, resourceType, address) \<Rightarrow>
          \<lparr>TerraformObject.ID = generateObjectID fileID objectType name 0,
           FileID = fileID,
           TerraformObject.Type = objectType,
           TerraformObject.Name = name,
           ResourceType = resourceType,
           Configuration = config,
           TerraformObject.Dependencies = [],
           Address = address,
           TerraformObject.Mode = [],
           ProviderName = [],
           TerraformObject.SchemaVersion = 0,
           SensitiveValues = [],
           CreatedAt = created,
           TerraformObject.UpdatedAt = updated\<rparr>)"

text \<open>The configuration \<open>parseBlock\<close> ends up with: the extracted one, or an empty map
  when \<open>extractConfiguration\<close> returned an error.\<close>

definition block_config :: "('d, 'b, 'x, 'a) hcl \<Rightarrow> 'a \<Rightarrow> 'b \<Rightarrow> (string \<rightharpoonup> 'j any)" where
  "block_config lib place body =
     (case (extractConfiguration lib place body :: (string \<rightharpoonup> 'j any) \<times> unit parser_error option) of
        (config, None) \<Rightarrow> config
      | (config, Some err) \<Rightarrow> Map.empty)"

definition parseBlock ::
  "('d, 'b, 'x, 'a) hcl \<Rightarrow> 'a \<Rightarrow> string \<Rightarrow> 'b Block \<Rightarrow> clock
     \<Rightarrow> ('e parser_error + 'j TerraformObject) \<times> clock" where
  "parseBlock lib place fileID block clk =
     (case block_switch block of
        Inl err \<Rightarrow> (Inl err, clk)
      | Inr found \<Rightarrow>
          (case time_Now clk of (created, clk1) \<Rightarrow>
           case time_Now clk1 of (updated, clk2) \<Rightarrow>
             (Inr (block_object fileID found (block_config lib place (Body block)) created updated), clk2)))"

text \<open>
  The loop of \<open>TerraformParser.Parse\<close> over the blocks: a block for which \<open>parseBlock\<close>
  returns an error is skipped; a panic ends the run.
\<close>

fun blocks_loop ::
  "('d, 'b, 'x, 'a) hcl \<Rightarrow> 'a \<Rightarrow> string \<Rightarrow> 'b Block list \<Rightarrow> 'j TerraformObject list \<Rightarrow> clock
     \<Rightarrow> ('e parser_error + 'j TerraformObject list) \<times> clock" where
  "blocks_loop lib place fileID [] objects clk = (Inr objects, clk)"
| "blocks_loop lib place fileID (block # rest) objects clk =
     (case (parseBlock lib place fileID block clk :: ('e parser_error + 'j TerraformObject) \<times> clock) of
        (Inl IndexOutOfRange, clk') \<Rightarrow> (Inl IndexOutOfRange, clk')
      | (Inl err, clk') \<Rightarrow> blocks_loop lib place fileID rest objects clk'
      | (Inr obj, clk') \<Rightarrow> blocks_loop lib place fileID rest (objects @ [obj]) clk')"

text \<open>
  The places that the trees of coming parsers will get, from the next one on; a new
  parser takes the first and leaves the rest.
\<close>

type_synonym 'a allocator = "nat \<Rightarrow> 'a"

definition NewParser :: "'a allocator \<Rightarrow> 'a \<times> 'a allocator" where
  "NewParser heap = (heap 0, \<lambda>n. heap (Suc n))"

text \<open>\<open>TerraformParser.Parse\<close>; the world is the clock and the allocator.\<close>

definition TerraformParser_Parse ::
  "('d, 'b, 'x, 'a) hcl \<Rightarrow> Context \<Rightarrow> TerraformFile \<Rightarrow> clock \<times> 'a allocator
     \<Rightarrow> ('e parser_error + 'j TerraformObject list) \<times> clock \<times> 'a allocator" where
  "TerraformParser_Parse lib ctx file world =
     (case world of
        (clk, heap) \<Rightarrow>
          (case NewParser heap of
             (place, heap') \<Rightarrow>
               (case ParseHCL lib (Content file) (SourcePath file) of
                  (hclFile, diags) \<Rightarrow>
                    if HasErrors lib diags
                    then (Inl (FailedToParseHCL (Error lib diags)), clk, heap')
                    else
                      (case PartialContent lib hclFile body_schema of
                         (content, diags') \<Rightarrow>
                           if HasErrors lib diags'
                           then (Inl (FailedToParseContent (Error lib diags')), clk, heap')
                           else
                             (case blocks_loop lib place (TerraformFile.ID file) content [] clk of
                                (res, clk') \<Rightarrow> (res, clk', heap'))))))"

text \<open>A record without its two timestamps.\<close>

definition untimed :: "'j TerraformObject \<Rightarrow> 'j TerraformObject" where
  "untimed obj = obj\<lparr>CreatedAt := 0, TerraformObject.UpdatedAt := 0\<rparr>"

text \<open>A record without its two timestamps and without the values of its configuration:
  the names of the attributes stay.\<close>

definition unvalued :: "'j TerraformObject \<Rightarrow> 'j TerraformObject" where
  "unvalued obj =
     obj\<lparr>Configuration := (\<lambda>name. map_option (\<lambda>val. AnyString []) (Configuration obj name)),
         CreatedAt := 0, TerraformObject.UpdatedAt := 0\<rparr>"

definition unvalued_result ::
  "'e parser_error + 'j TerraformObject list \<Rightarrow> 'e parser_error + 'j TerraformObject list" where
  "unvalued_result res = (case res of Inl err \<Rightarrow> Inl err | Inr objects \<Rightarrow> Inr (map unvalued objects))"

definition untimed_result ::
  "'e parser_error + 'j TerraformObject list \<Rightarrow> 'e parser_error + 'j TerraformObject list" where
  "untimed_result res = (case res of Inl err \<Rightarrow> Inl err | Inr objects \<Rightarrow> Inr (map untimed objects))"

text \<open>
  Two implementations of the interface, for concrete runs of the registry: \<open>stub_A\<close>
  accepts snapshot files, returns no objects and counts its calls in the world by 1;
  \<open>stub_B\<close> accepts snapshot and configuration files, fails, and counts by 10.
\<close>

definition stub_A :: "(unit, unit, nat) Parser" where
  "stub_A = \<lparr>Parse = (\<lambda>ctx file w. (Inr [], w + 1)), CanParse = (\<lambda>t. t = FileTypeState)\<rparr>"

definition stub_B :: "(unit, unit, nat) Parser" where
  "stub_B = \<lparr>Parse = (\<lambda>ctx file w. (Inl (), w + 10)),
              CanParse = (\<lambda>t. t = FileTypeState \<or> t = FileTypeTerraform)\<rparr>"



definition stub_json_file :: TerraformFile where
  "stub_json_file =
     \<lparr>TerraformFile.ID = ''f2'', Source = ''s3'', SourcePath = ''env/plan.json'',
      FileType = ''json'', Content = ''{}'', ContentHash = ''h2'', CollectedAt = 0,
      TerraformFile.UpdatedAt = 0\<rparr>"

section \<open>Concrete inputs\<close>

text \<open>
  A snapshot with two resource blocks and three instances in all, a decoder that knows
  this one document and rejects every other text, and a clock that advances by one
  between readings.
\<close>

definition stub_state :: "unit TerraformState" where
  "stub_state =
     \<lparr>Version = 4, TerraformVersion = ''1.0.0'', Serial = 1, Lineage = ''test-lineage'',
      Outputs = Map.empty,
      Resources =
        [\<lparr>Mode = ''managed'', Type = ''aws_instance'', Name = ''web'',
          Provider = ''provider['' @ [CHR 0x22] @ ''registry.terraform.io/hashicorp/aws''
                       @ [CHR 0x22] @ '']'',
          Instances =
            [\<lparr>SchemaVersion = 1, Attributes = Map.empty, SensitiveAttrs = [], Dependencies = []\<rparr>,
             \<lparr>SchemaVersion = 1, Attributes = Map.empty, SensitiveAttrs = [], Dependencies = []\<rparr>]\<rparr>,
         \<lparr>Mode = ''managed'', Type = ''aws_s3_bucket'', Name = ''web'',
          Provider = ''provider['' @ [CHR 0x22] @ ''registry.terraform.io/hashicorp/aws''
                       @ [CHR 0x22] @ '']'',
          Instances =
            [\<lparr>SchemaVersion = 0, Attributes = Map.empty, SensitiveAttrs = [], Dependencies = []\<rparr>]\<rparr>]\<rparr>"

definition stub_Unmarshal :: "string \<Rightarrow> string + unit TerraformState" where
  "stub_Unmarshal content =
     (if content = ''{snapshot}'' then Inr stub_state else Inl ''unexpected end of JSON input'')"

definition stub_snapshot :: TerraformFile where
  "stub_snapshot =
     \<lparr>TerraformFile.ID = ''f1'', Source = ''s3'', SourcePath = ''env/terraform.tfstate'',
      FileType = ''tfstate'', Content = ''{snapshot}'', ContentHash = ''h1'', CollectedAt = 0,
      TerraformFile.UpdatedAt = 0\<rparr>"

definition stub_truncated :: TerraformFile where
  "stub_truncated =
     \<lparr>TerraformFile.ID = ''f3'', Source = ''s3'', SourcePath = ''env/broken.tfstate'',
      FileType = ''tfstate'', Content = ''{'', ContentHash = ''h3'', CollectedAt = 0,
      TerraformFile.UpdatedAt = 0\<rparr>"

definition stub_clock :: clock where
  "stub_clock = (\<lambda>n. int n)"

text \<open>
  An HCL library over bodies that are a list of attributes (name and expression text)
  and a list of nested blocks' names: \<open>JustAttributes\<close> gives the attributes, with an
  error diagnostic when the body has nested blocks. It parses no text: every file has
  the one block \<open>stub_block\<close>. The rendering of an expression is its text followed by
  an address that depends on the place of the tree. The allocator \<open>stub_heap\<close> gives
  the places 0, 1, 2 and so on.
\<close>

type_synonym stub_body = "(string \<times> string) list \<times> string list"

definition stub_block :: "stub_body Block" where
  "stub_block =
     \<lparr>Type = ''resource'', Labels = [''aws_instance'', ''web''],
      Body = ([(''ami'', ''ami-0c55b159''), (''instance_type'', ''t2.micro''), (''count'', ''1 / 0'')], [])\<rparr>"

definition stub_block_nested :: "stub_body Block" where
  "stub_block_nested =
     \<lparr>Type = ''resource'', Labels = [''aws_instance'', ''web''],
      Body = ([(''ami'', ''ami-0c55b159''), (''instance_type'', ''t2.micro''), (''count'', ''1 / 0'')],
              [''tags''])\<rparr>"

definition stub_hcl :: "(string list, stub_body, string, nat) hcl" where
  "stub_hcl =
     \<lparr>ParseHCL = (\<lambda>content path. (([], []), [])),
      PartialContent = (\<lambda>body schema. ([stub_block], [])),
      JustAttributes = (\<lambda>body. (map_of (fst body), map (\<lambda>b. ''Unexpected block: '' @ b) (snd body))),
      HasErrors = (\<lambda>diags. diags \<noteq> []),
      Error = concat,
      Sprintf_v = (\<lambda>place expr. ''&{'' @ expr @ '' 0xc00001f0e'' @ replicate place CHR ''8'' @ ''0}'')\<rparr>"

definition stub_heap :: "nat allocator" where
  "stub_heap = (\<lambda>n. n)"

definition stub_config :: TerraformFile where
  "stub_config =
     \<lparr>TerraformFile.ID = ''f4'', Source = ''bitbucket'', SourcePath = ''env/main.tf'',
      FileType = ''tf'', Content = ''resource ...'', ContentHash = ''h4'', CollectedAt = 0,
      TerraformFile.UpdatedAt = 0\<rparr>"

text \<open>Two resource blocks of a snapshot whose types and names contain a colon.\<close>

definition stub_colon_resources :: "unit StateResource list" where
  "stub_colon_resources =
     [\<lparr>Mode = ''managed'', Type = ''a:b'', Name = ''c'', Provider = ''p/x'',
       Instances = [\<lparr>SchemaVersion = 0, Attributes = Map.empty, SensitiveAttrs = [], Dependencies = []\<rparr>]\<rparr>,
      \<lparr>Mode = ''managed'', Type = ''a'', Name = ''b:c'', Provider = ''p/x'',
       Instances = [\<lparr>SchemaVersion = 0, Attributes = Map.empty, SensitiveAttrs = [], Dependencies = []\<rparr>]\<rparr>]"

section \<open>Properties of the queue\<close>

lemma items_enqueue_all: "items (enqueue_all ctx xs q) = items q @ xs"
  by (induction xs arbitrary: q) (simp_all add: Enqueue_def)

lemma cond_enqueue_all: "cond q = [] \<Longrightarrow> cond (enqueue_all ctx xs q) = []"
  by (induction xs arbitrary: q) (simp_all add: Enqueue_def Signal_def)

lemma dequeue_n_items:
  "items q = xs @ ys \<Longrightarrow> dequeue_n (length xs) g ctx q = (map Item xs, q\<lparr>items := ys\<rparr>)"
proof (induction xs arbitrary: q)
  case Nil
  then show ?case by simp
next
  case (Cons x xs)
  have "Dequeue g ctx q = (Item x, q\<lparr>items := xs @ ys\<rparr>)"
    using Cons.prems by (simp add: Dequeue_def)
  moreover have "dequeue_n (length xs) g ctx (q\<lparr>items := xs @ ys\<rparr>)
      = (map Item xs, q\<lparr>items := xs @ ys, items := ys\<rparr>)"
    by (rule Cons.IH) simp
  ultimately show ?case by simp
qed

text \<open>
  C2. FIFO: after the items \<open>xs\<close> are enqueued into a new queue, \<open>length xs\<close> calls of
  \<open>Dequeue\<close> by one consumer return exactly \<open>xs\<close>, in order, and leave the queue as new;
  and a call of \<open>Dequeue\<close> on a queue holding \<open>x # rest\<close> returns the oldest item \<open>x\<close> and
  leaves \<open>rest\<close>. Both hold for every context, cancelled or not.
\<close>

theorem queue_fifo:
  "dequeue_n (length xs) g ctx (enqueue_all ctx' xs NewInMemoryQueue) = (map Item xs, NewInMemoryQueue)
   \<and> Dequeue g ctx (q\<lparr>items := x # rest\<rparr>) = (Item x, q\<lparr>items := rest\<rparr>)"
proof -
  let ?q = "enqueue_all ctx' xs (NewInMemoryQueue :: 'a InMemoryQueue)"
  have i: "items ?q = xs @ []"
    by (simp add: items_enqueue_all NewInMemoryQueue_def)
  have c: "cond ?q = []"
    by (rule cond_enqueue_all) (simp add: NewInMemoryQueue_def)
  have "dequeue_n (length xs) g ctx ?q = (map Item xs, ?q\<lparr>items := []\<rparr>)"
    by (rule dequeue_n_items [OF i])
  moreover have "?q\<lparr>items := []\<rparr> = NewInMemoryQueue"
    using c by (simp add: NewInMemoryQueue_def)
  ultimately show ?thesis
    by (simp add: Dequeue_def)
qed

text \<open>
  C10. \<open>Enqueue\<close> never fails: whatever the queue and the context (done or not), it
  returns \<open>nil\<close> and the slice is the old one with the item appended; the same holds on
  the queue left by \<open>Close\<close>, which also returns \<open>nil\<close> and leaves the slice alone.
\<close>

theorem enqueue_never_fails:
  "fst (Enqueue ctx item q) = None
   \<and> items (snd (Enqueue ctx item q)) = items q @ [item]
   \<and> fst (Close q) = None
   \<and> items (snd (Close q)) = items q
   \<and> fst (Enqueue ctx item (snd (Close q))) = None
   \<and> items (snd (Enqueue ctx item (snd (Close q)))) = items q @ [item]"
  by (simp add: Enqueue_def Close_def)


lemma length_released: "length (released before after sts) = length sts"
  by (simp add: released_def)

lemma pending_released:
  "list_all pending sts \<Longrightarrow> list_all pending (released before after sts)"
  by (auto simp: released_def list_all_iff dest: set_zip_rightD)

lemma parked_stays:
  assumes "g < length (consumers s)" "consumers s ! g = Parked" "quiet e"
  shows "g < length (consumers (step e s)) \<and> consumers (step e s) ! g = Parked"
proof (cases e)
  case (Run g')
  then show ?thesis
    using assms
    by (cases "g' = g")
       (auto simp: Dequeue_def split: list.splits option.splits status.splits)
qed (use assms in \<open>auto simp: nth_append\<close>)

lemma cancelled_stays:
  "shared_ctx s = Some c \<Longrightarrow> quiet e \<Longrightarrow> shared_ctx (step e s) = Some c"
  by (cases e) (auto simp: Dequeue_def split: list.splits option.splits status.splits)

lemma parked_run:
  "g < length (consumers s) \<Longrightarrow> consumers s ! g = Parked \<Longrightarrow> shared_ctx s = Some c
   \<Longrightarrow> list_all quiet evs
   \<Longrightarrow> consumers (run evs s) ! g = Parked \<and> shared_ctx (run evs s) = Some c"
proof (induction evs arbitrary: s)
  case Nil
  then show ?case by simp
next
  case (Cons e evs)
  have q: "quiet e" and qs: "list_all quiet evs"
    using Cons.prems(4) by simp_all
  have "g < length (consumers (step e s))" "consumers (step e s) ! g = Parked"
    using parked_stays [OF Cons.prems(1,2) q] by simp_all
  moreover have "shared_ctx (step e s) = Some c"
    by (rule cancelled_stays [OF Cons.prems(3) q])
  ultimately show ?case
    using Cons.IH [of "step e s"] qs by simp
qed

lemma parked_then_cancelled:
  "run [CallDequeue, Run 0, Cancel] init
     = \<lparr>queue = \<lparr>items = [], cond = [0]\<rparr>, shared_ctx = Some Canceled, consumers = [Parked]\<rparr>"
  by (simp add: init_def NewInMemoryQueue_def Dequeue_def)

text \<open>
  The first half of the blocking property: on a queue that is empty, with a live context,
  no call of \<open>Dequeue\<close> returns as long as nothing is enqueued and the context is not
  cancelled, whatever else happens (\<open>Close\<close>, more consumers, any scheduling).
\<close>

lemma blocked_step:
  assumes "items (queue s) = []" "shared_ctx s = None" "list_all pending (consumers s)"
    and "no_item_no_cancel e"
  shows "items (queue (step e s)) = [] \<and> shared_ctx (step e s) = None
         \<and> list_all pending (consumers (step e s))"
proof (cases e)
  case CallClose
  then show ?thesis
    using assms by (simp add: Close_def pending_released)
next
  case (Run g)
  then show ?thesis
    using assms
    by (auto simp: Dequeue_def list_all_length nth_list_update split: status.splits)
qed (use assms in auto)

lemma dequeue_blocks_while_empty_and_live:
  "items (queue s) = [] \<Longrightarrow> shared_ctx s = None \<Longrightarrow> list_all pending (consumers s)
   \<Longrightarrow> list_all no_item_no_cancel evs
   \<Longrightarrow> list_all pending (consumers (run evs s))"
proof (induction evs arbitrary: s)
  case Nil
  then show ?case by simp
next
  case (Cons e evs)
  then show ?case
    using blocked_step [of s e] by simp
qed

text \<open>What does make a parked consumer see the cancellation: a broadcast from \<open>Close\<close>.\<close>

lemma close_after_cancel_unblocks:
  "consumers (run [CallDequeue, Run 0, Cancel, CallClose, Run 0] init) = [Cancelled Canceled]"
  by (simp add: init_def NewInMemoryQueue_def Dequeue_def Close_def Broadcast_def released_def)

text \<open>
  C1. The consumer calls \<open>Dequeue\<close> on the empty queue and parks in \<open>cond.Wait()\<close>; then
  the context is cancelled. From there on, as long as no goroutine calls \<open>Enqueue\<close> or
  \<open>Close\<close>, the consumer stays parked: however often the scheduler tries to run it and
  whatever the other consumers do, its call never returns, although the context is done.
\<close>

theorem dequeue_parked_misses_cancel:
  "list_all quiet evs \<Longrightarrow>
     consumers (run evs (run [CallDequeue, Run 0, Cancel] init)) ! 0 = Parked
     \<and> shared_ctx (run evs (run [CallDequeue, Run 0, Cancel] init)) = Some Canceled"
  unfolding parked_then_cancelled by (rule parked_run) simp_all

theorem dequeue_parked_misses_cancel_witness:
  "list_all quiet [Run 0, Cancel, CallDequeue, Run 1, Run 0 :: nat event]
   \<and> consumers (run [Run 0, Cancel, CallDequeue, Run 1, Run 0 :: nat event]
        (run [CallDequeue, Run 0, Cancel] init)) ! 0 = Parked
   \<and> shared_ctx (run [Run 0, Cancel, CallDequeue, Run 1, Run 0 :: nat event]
        (run [CallDequeue, Run 0, Cancel] init)) = Some Canceled"
proof -
  have q: "list_all quiet [Run 0, Cancel, CallDequeue, Run 1, Run 0 :: nat event]"
    by simp
  show ?thesis
    using q dequeue_parked_misses_cancel [OF q] by blast
qed

section \<open>Properties of the registry\<close>


lemma parse_loop_none:
  "list_all (\<lambda>p. \<not> CanParse p (FileType file)) ps
   \<Longrightarrow> parse_loop n ps ctx file w = (map CallCanParse [n..<n + length ps], Inr [], w)"
proof (induction ps arbitrary: n)
  case Nil
  then show ?case by simp
next
  case (Cons p ps)
  have "[n..<n + length (p # ps)] = n # [Suc n..<n + length (p # ps)]"
    by (rule upt_conv_Cons) simp
  then have "[n..<n + length (p # ps)] = n # [Suc n..<Suc n + length ps]"
    by simp
  then show ?case
    using Cons by simp
qed






text \<open>
  C4. When no registered parser accepts the file type of the item (in particular when
  none is registered), \<open>ParserRegistry.Parse\<close> returns the empty object list and no
  error; it asks \<open>CanParse\<close> of every parser, calls \<open>Parse\<close> on none, and leaves the world
  as it was.
\<close>

theorem dispatch_unmatched_is_empty:
  "list_all (\<lambda>p. \<not> CanParse p (FileType file)) (parsers r)
   \<Longrightarrow> ParserRegistry_Parse r ctx file w
       = (map CallCanParse [0..<length (parsers r)], Inr [], w)"
  using parse_loop_none [where ps = "parsers r" and n = 0 and ctx = ctx and w = w]
  by (simp add: ParserRegistry_Parse_def)

theorem dispatch_unmatched_is_empty_witness:
  "list_all (\<lambda>p. \<not> CanParse p (FileType stub_json_file))
      (parsers (Register stub_B (Register stub_A NewParserRegistry)))
   \<and> ParserRegistry_Parse (Register stub_B (Register stub_A NewParserRegistry)) None stub_json_file 0
      = ([CallCanParse 0, CallCanParse 1], Inr [], 0)
   \<and> ParserRegistry_Parse NewParserRegistry None stub_json_file (0::nat)
      = ([], (Inr [] :: unit + unit TerraformObject list), 0)"
proof -
  let ?r = "Register stub_B (Register stub_A NewParserRegistry)"
  have h: "list_all (\<lambda>p. \<not> CanParse p (FileType stub_json_file)) (parsers ?r)"
    by (simp add: Register_def NewParserRegistry_def stub_A_def stub_B_def stub_json_file_def
        FileTypeState_def FileTypeTerraform_def)
  have l: "[0..<length (parsers ?r)] = [0, 1]"
    by (simp add: Register_def NewParserRegistry_def upt_conv_Cons)
  have "ParserRegistry_Parse ?r None stub_json_file 0 = ([CallCanParse 0, CallCanParse 1], Inr [], 0)"
    using dispatch_unmatched_is_empty [OF h, of None 0] l by simp
  moreover have "ParserRegistry_Parse NewParserRegistry None stub_json_file (0::nat)
      = ([], (Inr [] :: unit + unit TerraformObject list), 0)"
    by (simp add: ParserRegistry_Parse_def NewParserRegistry_def)
  ultimately show ?thesis
    using h by blast
qed

section \<open>Properties of the snapshot parser\<close>

lemma last_slash_take:
  "n \<le> length p \<Longrightarrow>
   last_slash p n =
     (if CHR ''/'' \<in> set (take n p)
      then Some (n - length (takeWhile (\<lambda>c. c \<noteq> CHR ''/'') (rev (take n p))))
      else None)"
proof (induction n)
  case 0
  then show ?case by simp
next
  case (Suc n)
  then have t: "take (Suc n) p = take n p @ [p ! n]"
    by (simp add: take_Suc_conv_app_nth)
  show ?case
    using Suc by (simp add: t)
qed

lemma drop_after_last_slash:
  "drop (length p - length (takeWhile (\<lambda>c. c \<noteq> CHR ''/'') (rev p))) p = after_last_slash p"
proof -
  let ?k = "length (takeWhile (\<lambda>c. c \<noteq> CHR ''/'') (rev p))"
  have "after_last_slash p = rev (take ?k (rev p))"
    unfolding after_last_slash_def by (rule arg_cong [OF takeWhile_eq_take])
  also have "\<dots> = drop (length p - ?k) p"
    by (simp add: rev_take)
  finally show ?thesis by simp
qed

lemma first_close_drop:
  "i \<le> length p \<Longrightarrow> first_close p i = i + length (before_close (drop i p))"
proof (induction p i rule: first_close.induct)
  case (1 provider i)
  show ?case
  proof (cases "i < length provider")
    case True
    then have d: "drop i provider = provider ! i # drop (Suc i) provider"
      by (simp add: Cons_nth_drop_Suc)
    show ?thesis
      using True 1 by (subst first_close.simps) (simp add: d before_close_def)
  next
    case False
    then show ?thesis
      using 1(2) by (subst first_close.simps) (simp add: before_close_def)
  qed
qed

text \<open>What the two loops of \<open>extractProviderName\<close> compute on a string with a \<open>/\<close>.\<close>

lemma extractProviderName_cut:
  assumes "CHR ''/'' \<in> set provider"
  shows "extractProviderName provider = provider_name_cut provider"
proof -
  let ?s = "length provider - length (takeWhile (\<lambda>c. c \<noteq> CHR ''/'') (rev provider))"
  have ne: "length provider \<noteq> 0"
    using assms by auto
  have ls: "last_slash provider (length provider) = Some ?s"
    using assms by (simp add: last_slash_take)
  have sl: "?s \<le> length provider"
    by simp
  have fc: "first_close provider ?s = ?s + length (before_close (after_last_slash provider))"
    using first_close_drop [OF sl] by (simp add: drop_after_last_slash)
  have tk: "take (length (before_close (after_last_slash provider))) (after_last_slash provider)
      = before_close (after_last_slash provider)"
    unfolding before_close_def by (rule takeWhile_eq_take [symmetric])
  show ?thesis
    unfolding extractProviderName_def provider_name_cut_def
    using ne by (simp add: ls fc Let_def drop_after_last_slash tk del: first_close.simps)
qed

text \<open>Without a \<open>/\<close> the first loop leaves \<open>start\<close> at the last byte.\<close>

lemma extractProviderName_no_slash_example:
  "extractProviderName ''aws'' = ''s''"
  by code_simp

lemma instances_loop_map:
  assumes "\<And>k inst c u. f (state_object file r k inst c u) = h k inst"
  shows "map f (fst (instances_loop file r i insts objs clk))
     = map f objs @ map (\<lambda>(k, inst). h k inst) (zip [i..<i + length insts] insts)"
proof (induction insts arbitrary: i objs clk)
  case Nil
  then show ?case by simp
next
  case (Cons inst insts)
  have u: "[i..<Suc (i + length insts)] = i # [Suc i..<Suc (i + length insts)]"
    by (rule upt_conv_Cons) simp
  show ?case
    using Cons.IH [of "Suc i"]
    by (simp add: u time_Now_def assms del: upt_Suc)
qed

lemma resources_loop_map:
  assumes "\<And>r k inst c u. f (state_object file r k inst c u) = h r k inst"
  shows "map f (fst (resources_loop file rs objs clk))
     = map f objs
       @ concat (map (\<lambda>r. map (\<lambda>(k, inst). h r k inst)
                              (zip [0..<length (Instances r)] (Instances r))) rs)"
proof (induction rs arbitrary: objs clk)
  case Nil
  then show ?case by simp
next
  case (Cons r rs)
  have "map f (fst (instances_loop file r 0 (Instances r) objs clk))
      = map f objs @ map (\<lambda>(k, inst). h r k inst) (zip [0..<0 + length (Instances r)] (Instances r))"
    by (rule instances_loop_map) (rule assms)
  then show ?case
    by (cases "instances_loop file r 0 (Instances r) objs clk") (simp add: Cons.IH)
qed

lemma map_const_zip_upt:
  "map (\<lambda>(k, inst). c) (zip [0..<length xs] xs) = replicate (length xs) c"
  by (simp add: map_replicate_const case_prod_unfold)

lemma map_index_zip_upt:
  "map (\<lambda>(k, inst). g k) (zip [0..<length xs] xs) = map g [0..<length xs]"
proof -
  have "map g (map fst (zip [0..<length xs] xs)) = map (\<lambda>(k, inst). g k) (zip [0..<length xs] xs)"
    by (simp only: map_map comp_def case_prod_unfold)
  moreover have "map fst (zip [0..<length xs] xs) = [0..<length xs]"
    by (rule map_fst_zip) simp
  ultimately show ?thesis by simp
qed

lemma StateParser_Parse_map:
  assumes "json_Unmarshal (Content tf) = Inr state"
    and "\<And>r k inst c u. f (state_object tf r k inst c u) = h r k inst"
  shows "\<exists>objects. fst (StateParser_Parse json_Unmarshal ctx tf clk) = Inr objects
     \<and> map f objects
       = concat (map (\<lambda>r. map (\<lambda>(k, inst). h r k inst)
                              (zip [0..<length (Instances r)] (Instances r))) (Resources state))"
proof -
  obtain objects clk' where l: "resources_loop tf (Resources state) [] clk = (objects, clk')"
    by (cases "resources_loop tf (Resources state) [] clk")
  have "map f (fst (resources_loop tf (Resources state) [] clk))
      = map f [] @ concat (map (\<lambda>r. map (\<lambda>(k, inst). h r k inst)
                              (zip [0..<length (Instances r)] (Instances r))) (Resources state))"
    by (rule resources_loop_map) (rule assms(2))
  then show ?thesis
    using l assms(1) by (simp add: StateParser_Parse_def)
qed

text \<open>
  C5. When the content of the item decodes as a snapshot document, the snapshot parser
  returns one record for each instance of each resource block, in order: as many records
  as the blocks have instances in all, each of kind \<open>resource\<close>, with the address
  \<open><type>.<name>\<close> of its resource block. When the content does not decode, the parser
  returns the error and no records, and does not read the clock.
\<close>

theorem snapshot_cardinality:
  "(json_Unmarshal (Content file) = Inr state \<longrightarrow>
      (\<exists>objects. fst (StateParser_Parse json_Unmarshal ctx file clk) = Inr objects
         \<and> length objects = sum_list (map (\<lambda>r. length (Instances r)) (Resources state))
         \<and> map TerraformObject.Type objects = replicate (length objects) ObjectTypeResource
         \<and> map Address objects
             = concat (map (\<lambda>r. replicate (length (Instances r))
                                   (StateResource.Type r @ ''.'' @ StateResource.Name r))
                        (Resources state))))
   \<and> (json_Unmarshal (Content file) = Inl err \<longrightarrow>
        StateParser_Parse json_Unmarshal ctx file clk = (Inl (FailedToParseStateFile err), clk))"
proof (intro conjI impI)
  assume dec: "json_Unmarshal (Content file) = Inr state"
  let ?K = "sum_list (map (\<lambda>r. length (Instances r)) (Resources state))"
  obtain objects where o: "fst (StateParser_Parse json_Unmarshal ctx file clk) = Inr objects"
    and a: "map Address objects
       = concat (map (\<lambda>r. map (\<lambda>(k, inst). StateResource.Type r @ ''.'' @ StateResource.Name r)
                              (zip [0..<length (Instances r)] (Instances r))) (Resources state))"
    using StateParser_Parse_map [where json_Unmarshal = json_Unmarshal and tf = "file"
        and state = state and f = Address
        and h = "\<lambda>r k inst. StateResource.Type r @ ''.'' @ StateResource.Name r"
        and ctx = ctx and clk = clk] dec
    by (auto simp: state_object_def)
  obtain objects' where o': "fst (StateParser_Parse json_Unmarshal ctx file clk) = Inr objects'"
    and t: "map TerraformObject.Type objects'
       = concat (map (\<lambda>r. map (\<lambda>(k, inst). ObjectTypeResource)
                              (zip [0..<length (Instances r)] (Instances r))) (Resources state))"
    using StateParser_Parse_map [where json_Unmarshal = json_Unmarshal and tf = "file"
        and state = state and f = TerraformObject.Type
        and h = "\<lambda>r k inst. ObjectTypeResource"
        and ctx = ctx and clk = clk] dec
    by (auto simp: state_object_def)
  have same: "objects' = objects"
    using o o' by simp
  have a': "map Address objects
      = concat (map (\<lambda>r. replicate (length (Instances r))
                            (StateResource.Type r @ ''.'' @ StateResource.Name r)) (Resources state))"
    using a by (simp add: map_const_zip_upt)
  have "length (map Address objects) = ?K"
    unfolding a' by (simp add: length_concat comp_def)
  then have len: "length objects = ?K"
    by simp
  have "set (map TerraformObject.Type objects) \<subseteq> {ObjectTypeResource}"
    using t same by (auto simp: map_const_zip_upt)
  then have ty: "map TerraformObject.Type objects = replicate (length objects) ObjectTypeResource"
    by (induction objects) auto
  show "\<exists>objects. fst (StateParser_Parse json_Unmarshal ctx file clk) = Inr objects
         \<and> length objects = ?K
         \<and> map TerraformObject.Type objects = replicate (length objects) ObjectTypeResource
         \<and> map Address objects
             = concat (map (\<lambda>r. replicate (length (Instances r))
                                   (StateResource.Type r @ ''.'' @ StateResource.Name r))
                        (Resources state))"
    using o len ty a' by blast
next
  assume "json_Unmarshal (Content file) = Inl err"
  then show "StateParser_Parse json_Unmarshal ctx file clk = (Inl (FailedToParseStateFile err), clk)"
    by (simp add: StateParser_Parse_def)
qed

theorem snapshot_cardinality_witness:
  "stub_Unmarshal (Content stub_snapshot) = Inr stub_state
   \<and> (\<exists>objects. fst (StateParser_Parse stub_Unmarshal None stub_snapshot stub_clock) = Inr objects
         \<and> length objects = 3
         \<and> map TerraformObject.Type objects = [''resource'', ''resource'', ''resource'']
         \<and> map Address objects = [''aws_instance.web'', ''aws_instance.web'', ''aws_s3_bucket.web''])
   \<and> stub_Unmarshal (Content stub_truncated) = Inl ''unexpected end of JSON input''
   \<and> StateParser_Parse stub_Unmarshal None stub_truncated stub_clock
       = (Inl (FailedToParseStateFile ''unexpected end of JSON input''), stub_clock)"
proof -
  have ok: "stub_Unmarshal (Content stub_snapshot) = Inr stub_state"
    by (simp add: stub_Unmarshal_def stub_snapshot_def)
  have bad: "stub_Unmarshal (Content stub_truncated) = Inl ''unexpected end of JSON input''"
    by (simp add: stub_Unmarshal_def stub_truncated_def)
  have k: "sum_list (map (\<lambda>r. length (Instances r)) (Resources stub_state)) = 3"
    by (simp add: stub_state_def)
  have a: "concat (map (\<lambda>r. replicate (length (Instances r))
                            (StateResource.Type r @ ''.'' @ StateResource.Name r))
                 (Resources stub_state))
      = [''aws_instance.web'', ''aws_instance.web'', ''aws_s3_bucket.web'']"
    by (simp add: stub_state_def numeral_2_eq_2)
  have r: "replicate 3 ObjectTypeResource = [''resource'', ''resource'', ''resource'']"
    by (simp add: numeral_3_eq_3 ObjectTypeResource_def)
  show ?thesis
    using ok bad r
      snapshot_cardinality [of stub_Unmarshal stub_snapshot stub_state None stub_clock
        "''unexpected end of JSON input''"]
      snapshot_cardinality [of stub_Unmarshal stub_truncated stub_state None stub_clock
        "''unexpected end of JSON input''"]
    unfolding k a by (auto simp: ObjectTypeResource_def)
qed

section \<open>Properties of the declarative-config parser\<close>

lemma parseBlock_found:
  "(block_switch block :: 'e parser_error + _) = Inr found \<Longrightarrow>
   (parseBlock lib place fileID block clk :: ('e parser_error + 'j TerraformObject) \<times> clock)
     = (Inr (block_object fileID found (block_config lib place (Body block)) (clk 0) (clk 1)),
        \<lambda>n. clk (Suc (Suc n)))"
  by (simp add: parseBlock_def time_Now_def)

lemma parseBlock_error:
  "(block_switch block :: 'e parser_error + _) = Inl err \<Longrightarrow>
   (parseBlock lib place fileID block clk :: ('e parser_error + 'j TerraformObject) \<times> clock)
     = (Inl err, clk)"
  by (simp add: parseBlock_def)

lemma blocks_loop_all:
  assumes "\<And>found config c u. P (block_object fileID found config c u)"
  shows "list_all P objs
     \<Longrightarrow> fst (blocks_loop lib place fileID bs objs clk
              :: ('e parser_error + 'j TerraformObject list) \<times> clock) = Inr objects
     \<Longrightarrow> list_all P objects"
proof (induction bs arbitrary: objs clk)
  case Nil
  then show ?case by simp
next
  case (Cons b bs)
  show ?case
  proof (cases "block_switch b :: 'e parser_error + _")
    case (Inl err)
    then show ?thesis
      using Cons by (cases err) (auto simp: parseBlock_error)
  next
    case (Inr found)
    have ext: "list_all P (objs @ [block_object fileID found (block_config lib place (Body b)) (clk 0) (clk 1)])"
      using Cons.prems(1) assms by simp
    show ?thesis
      using Cons.IH [OF ext] Cons.prems(2) Inr by (simp add: parseBlock_found)
  qed
qed

lemma untimed_state_object:
  "untimed (state_object file r k inst c u) = state_object file r k inst 0 0"
  by (simp add: untimed_def state_object_def)

lemma untimed_block_object:
  "untimed (block_object fileID found config c u) = block_object fileID found config 0 0"
  by (cases found) (simp add: untimed_def block_object_def)

text \<open>The loop over the attributes drops no attribute, even for an extractor that fails.\<close>

lemma attributes_loop_dom: "dom (attributes_loop lib place extract attrs) = dom attrs"
  by (auto simp: attributes_loop_def dom_def split: option.splits sum.splits)

lemma block_config_eq:
  "JustAttributes lib body = (attrs, diags) \<Longrightarrow>
   (block_config lib place body :: string \<rightharpoonup> 'j any)
     = (if HasErrors lib diags then Map.empty
        else (\<lambda>name. map_option (\<lambda>expr. AnyString (Sprintf_v lib place expr)) (attrs name)))"
  by (auto simp: block_config_def extractConfiguration_def attributes_loop_def
      extractSimpleValue_def fun_eq_iff split: option.splits)

text \<open>The names of the attributes in the configuration do not depend on the place of
  the tree.\<close>

lemma block_config_names:
  "(\<lambda>name. map_option (\<lambda>val. AnyString []) ((block_config lib place body :: string \<rightharpoonup> 'j any) name))
     = (\<lambda>name. map_option (\<lambda>val. AnyString []) ((block_config lib place' body :: string \<rightharpoonup> 'j any) name))"
proof -
  obtain attrs diags where ja: "JustAttributes lib body = (attrs, diags)"
    by (cases "JustAttributes lib body")
  show ?thesis
    unfolding block_config_eq [OF ja]
    by (simp add: fun_eq_iff option.map_comp comp_def)
qed

lemma unvalued_block_object:
  "unvalued (block_object fileID found config c u)
     = block_object fileID found (\<lambda>name. map_option (\<lambda>val. AnyString []) (config name)) 0 0"
  by (cases found) (simp add: unvalued_def block_object_def)

lemma blocks_loop_unvalued:
  "map unvalued objs = map unvalued objs' \<Longrightarrow>
   unvalued_result (fst (blocks_loop lib place fileID bs objs clk
                          :: ('e parser_error + 'j TerraformObject list) \<times> clock))
     = unvalued_result (fst (blocks_loop lib place' fileID bs objs' clk'))"
proof (induction bs arbitrary: objs objs' clk clk')
  case Nil
  then show ?case by (simp add: unvalued_result_def)
next
  case (Cons b bs)
  show ?case
  proof (cases "block_switch b :: 'e parser_error + _")
    case (Inl err)
    then show ?thesis
      using Cons by (cases err) (auto simp: parseBlock_error unvalued_result_def)
  next
    case (Inr found)
    have "unvalued (block_object fileID found
                      (block_config lib place (Body b) :: string \<rightharpoonup> 'j any) (clk 0) (clk 1))
        = unvalued (block_object fileID found
                      (block_config lib place' (Body b) :: string \<rightharpoonup> 'j any) (clk' 0) (clk' 1))"
      unfolding unvalued_block_object
      by (rule arg_cong [where f = "\<lambda>config. block_object fileID found config 0 0"])
         (rule block_config_names)
    then have "map unvalued (objs @ [block_object fileID found
                      (block_config lib place (Body b) :: string \<rightharpoonup> 'j any) (clk 0) (clk 1)])
        = map unvalued (objs' @ [block_object fileID found
                      (block_config lib place' (Body b) :: string \<rightharpoonup> 'j any) (clk' 0) (clk' 1)])"
      using Cons.prems by simp
    then show ?thesis
      using Cons.IH Inr by (simp add: parseBlock_found)
  qed
qed

lemma TerraformParser_Parse_fst:
  assumes "ParseHCL lib (Content tf) (SourcePath tf) = (hclFile, diags)"
    and "PartialContent lib hclFile body_schema = (content, diags')"
  shows "fst (TerraformParser_Parse lib ctx tf (clk, heap)
            :: ('e parser_error + 'j TerraformObject list) \<times> clock \<times> 'a allocator)
     = (if HasErrors lib diags then Inl (FailedToParseHCL (Error lib diags))
        else if HasErrors lib diags' then Inl (FailedToParseContent (Error lib diags'))
        else fst (blocks_loop lib (heap 0) (TerraformFile.ID tf) content [] clk))"
proof -
  obtain res clk' where b: "(blocks_loop lib (heap 0) (TerraformFile.ID tf) content [] clk
       :: ('e parser_error + 'j TerraformObject list) \<times> clock) = (res, clk')"
    by (cases "blocks_loop lib (heap 0) (TerraformFile.ID tf) content [] clk
       :: ('e parser_error + 'j TerraformObject list) \<times> clock")
  show ?thesis
    by (simp add: TerraformParser_Parse_def NewParser_def assms b)
qed

lemma TerraformParser_Parse_all:
  assumes "\<And>found config c u. P (block_object (TerraformFile.ID tf) found config c u)"
    and "fst (TerraformParser_Parse lib ctx tf world
              :: ('e parser_error + 'j TerraformObject list) \<times> clock \<times> 'a allocator) = Inr objects"
  shows "list_all P objects"
proof -
  obtain clk heap where w: "world = (clk, heap)"
    by (cases world)
  obtain hclFile diags where p: "ParseHCL lib (Content tf) (SourcePath tf) = (hclFile, diags)"
    by (cases "ParseHCL lib (Content tf) (SourcePath tf)")
  obtain content diags' where c: "PartialContent lib hclFile body_schema = (content, diags')"
    by (cases "PartialContent lib hclFile body_schema")
  have "fst (blocks_loop lib (heap 0) (TerraformFile.ID tf) content [] clk
             :: ('e parser_error + 'j TerraformObject list) \<times> clock) = Inr objects"
    using assms(2) unfolding w TerraformParser_Parse_fst [OF p c]
    by (simp split: if_splits)
  then show ?thesis
    using blocks_loop_all [where P = P and objs = "[]", OF assms(1)] by simp
qed

lemma TerraformParser_Parse_unvalued:
  "unvalued_result (fst (TerraformParser_Parse lib ctx tf world
                          :: ('e parser_error + 'j TerraformObject list) \<times> clock \<times> 'a allocator))
     = unvalued_result (fst (TerraformParser_Parse lib ctx' tf world'))"
proof -
  obtain clk heap where w: "world = (clk, heap)"
    by (cases world)
  obtain clk' heap' where w': "world' = (clk', heap')"
    by (cases world')
  obtain hclFile diags where p: "ParseHCL lib (Content tf) (SourcePath tf) = (hclFile, diags)"
    by (cases "ParseHCL lib (Content tf) (SourcePath tf)")
  obtain content diags' where c: "PartialContent lib hclFile body_schema = (content, diags')"
    by (cases "PartialContent lib hclFile body_schema")
  have "unvalued_result (fst (blocks_loop lib (heap 0) (TerraformFile.ID tf) content [] clk
                          :: ('e parser_error + 'j TerraformObject list) \<times> clock))
     = unvalued_result (fst (blocks_loop lib (heap' 0) (TerraformFile.ID tf) content [] clk'))"
    by (rule blocks_loop_unvalued) simp
  then show ?thesis
    unfolding w w' TerraformParser_Parse_fst [OF p c] by simp
qed

section \<open>Provider names, identifiers and determinism of the parsers\<close>

text \<open>
  C7, as the code has it. When the content of the item decodes as a snapshot document,
  the snapshot parser returns one record for each instance of each resource block, and
  the provider name stored on the record is \<open>extractProviderName\<close> of the provider string
  of its block. For a block whose provider string contains a \<open>/\<close>, that is the part of
  the provider string after the last \<open>/\<close>, cut before the first double quote or \<open>]\<close> in
  it; when nothing is left of it, it is the whole provider string.
\<close>

theorem provider_name_on_records:
  assumes "json_Unmarshal (Content file) = Inr state"
  shows "\<exists>objects. fst (StateParser_Parse json_Unmarshal ctx file clk) = Inr objects
     \<and> list_all2 (\<lambda>obj r. ProviderName obj = extractProviderName (Provider r)
                          \<and> (CHR ''/'' \<in> set (Provider r)
                               \<longrightarrow> ProviderName obj = provider_name_cut (Provider r)))
         objects (record_blocks state)"
proof -
  obtain objects where o: "fst (StateParser_Parse json_Unmarshal ctx file clk) = Inr objects"
    and m: "map ProviderName objects
       = concat (map (\<lambda>r. map (\<lambda>(k, inst). extractProviderName (Provider r))
                              (zip [0..<length (Instances r)] (Instances r))) (Resources state))"
    using StateParser_Parse_map [where json_Unmarshal = json_Unmarshal and tf = "file"
        and state = state and f = ProviderName
        and h = "\<lambda>r k inst. extractProviderName (Provider r)"
        and ctx = ctx and clk = clk] assms
    by (auto simp: state_object_def)
  have "map ProviderName objects = map (\<lambda>r. extractProviderName (Provider r)) (record_blocks state)"
    unfolding m record_blocks_def
    by (simp add: map_const_zip_upt map_concat comp_def)
  then have "list_all2 (\<lambda>obj r. ProviderName obj = extractProviderName (Provider r))
      objects (record_blocks state)"
    by (simp add: list_all2_conv_all_nth list_eq_iff_nth_eq)
  then have "list_all2 (\<lambda>obj r. ProviderName obj = extractProviderName (Provider r)
                          \<and> (CHR ''/'' \<in> set (Provider r)
                               \<longrightarrow> ProviderName obj = provider_name_cut (Provider r)))
      objects (record_blocks state)"
    by (rule list_all2_mono) (simp add: extractProviderName_cut)
  then show ?thesis
    using o by blast
qed

lemma stub_provider_name:
  "extractProviderName
     (''provider['' @ [CHR 0x22] @ ''registry.terraform.io/hashicorp/aws'' @ [CHR 0x22] @ '']'')
     = ''aws''
   \<and> provider_name_cut
     (''provider['' @ [CHR 0x22] @ ''registry.terraform.io/hashicorp/aws'' @ [CHR 0x22] @ '']'')
     = ''aws''
   \<and> after_last_slash
     (''provider['' @ [CHR 0x22] @ ''registry.terraform.io/hashicorp/aws'' @ [CHR 0x22] @ '']'')
     = ''aws'' @ [CHR 0x22] @ '']''"
  by code_simp

theorem provider_name_on_records_witness:
  "stub_Unmarshal (Content stub_snapshot) = Inr stub_state
   \<and> list_all (\<lambda>r. CHR ''/'' \<in> set (Provider r)) (record_blocks stub_state)
   \<and> (\<exists>objects. fst (StateParser_Parse stub_Unmarshal None stub_snapshot stub_clock) = Inr objects
         \<and> map ProviderName objects = [''aws'', ''aws'', ''aws''])"
proof -
  let ?p = "''provider['' @ [CHR 0x22] @ ''registry.terraform.io/hashicorp/aws'' @ [CHR 0x22] @ '']''"
  have ok: "stub_Unmarshal (Content stub_snapshot) = Inr stub_state"
    by (simp add: stub_Unmarshal_def stub_snapshot_def)
  have ps: "map Provider (record_blocks stub_state) = [?p, ?p, ?p]"
    by (simp add: record_blocks_def stub_state_def numeral_2_eq_2)
  have sl: "CHR ''/'' \<in> set ?p"
    by simp
  have all: "list_all (\<lambda>r. CHR ''/'' \<in> set (Provider r)) (record_blocks stub_state)"
    by (simp add: record_blocks_def stub_state_def numeral_2_eq_2)
  obtain objects where o: "fst (StateParser_Parse stub_Unmarshal None stub_snapshot stub_clock) = Inr objects"
    and l: "list_all2 (\<lambda>obj r. ProviderName obj = extractProviderName (Provider r)
                          \<and> (CHR ''/'' \<in> set (Provider r)
                               \<longrightarrow> ProviderName obj = provider_name_cut (Provider r)))
         objects (record_blocks stub_state)"
    using provider_name_on_records [of stub_Unmarshal stub_snapshot stub_state None stub_clock] ok
    by blast
  have "list_all2 (\<lambda>obj r. ProviderName obj = provider_name_cut (Provider r))
         objects (record_blocks stub_state)"
    using l all by (auto simp: list_all2_conv_all_nth list_all_length)
  then have "map ProviderName objects = map provider_name_cut (map Provider (record_blocks stub_state))"
    by (simp add: list_all2_conv_all_nth list_eq_iff_nth_eq)
  then have n: "map ProviderName objects = [''aws'', ''aws'', ''aws'']"
    unfolding ps using stub_provider_name by simp
  have ex: "\<exists>objects. fst (StateParser_Parse stub_Unmarshal None stub_snapshot stub_clock) = Inr objects
         \<and> map ProviderName objects = [''aws'', ''aws'', ''aws'']"
    by (rule exI [of _ objects]) (rule conjI [OF o n])
  show ?thesis
    by (rule conjI [OF ok conjI [OF all ex]])
qed

text \<open>
  The claim as stated fails on the provider strings that snapshots hold: the part after
  the last \<open>/\<close> of \<open>provider["registry.terraform.io/hashicorp/aws"]\<close> ends with a double
  quote and a bracket, and the provider name stored on the records of the snapshot
  \<open>stub_snapshot\<close> is \<open>aws\<close>.
\<close>

theorem provider_name_on_records_counterexample:
  "(case fst (StateParser_Parse stub_Unmarshal None stub_snapshot stub_clock) of
      Inr objects \<Rightarrow> map ProviderName objects
    | Inl err \<Rightarrow> []) = [''aws'', ''aws'', ''aws'']
   \<and> map (\<lambda>r. after_last_slash (Provider r)) (record_blocks stub_state)
       = [''aws'' @ [CHR 0x22] @ '']'', ''aws'' @ [CHR 0x22] @ '']'', ''aws'' @ [CHR 0x22] @ '']'']
   \<and> ''aws'' \<noteq> ''aws'' @ [CHR 0x22] @ '']''"
proof -
  have e: "extractProviderName
     (''provider['' @ [CHR 0x22] @ ''registry.terraform.io/hashicorp/aws'' @ [CHR 0x22] @ '']'')
     = ''aws''"
    using stub_provider_name by blast
  have a: "after_last_slash
     (''provider['' @ [CHR 0x22] @ ''registry.terraform.io/hashicorp/aws'' @ [CHR 0x22] @ '']'')
     = ''aws'' @ [CHR 0x22] @ '']''"
    using stub_provider_name by blast
  have 1: "(case fst (StateParser_Parse stub_Unmarshal None stub_snapshot stub_clock) of
      Inr objects \<Rightarrow> map ProviderName objects
    | Inl err \<Rightarrow> []) = [''aws'', ''aws'', ''aws'']"
    using e
    by (simp add: StateParser_Parse_def stub_Unmarshal_def stub_snapshot_def stub_state_def
        time_Now_def state_object_def)
  have 2: "map (\<lambda>r. after_last_slash (Provider r)) (record_blocks stub_state)
       = [''aws'' @ [CHR 0x22] @ '']'', ''aws'' @ [CHR 0x22] @ '']'', ''aws'' @ [CHR 0x22] @ '']'']"
    using a by (simp add: record_blocks_def stub_state_def numeral_2_eq_2)
  show ?thesis
    using 1 2 by simp
qed

text \<open>
  C6, as the code has it. The identifier of a record is \<open>generateObjectID\<close> of four
  inputs and of nothing else. In the snapshot parser they are the id of the item, the
  type of the resource block (not the kind of the record, which is always \<open>resource\<close>),
  the name of the resource block and the index of the instance in its block. In the
  declarative-config parser they are the id of the item, the kind of the record, its
  name and the index \<open>0\<close>. Records with equal inputs have equal identifiers.
\<close>

theorem object_id_inputs:
  "(json_Unmarshal (Content file) = Inr state \<longrightarrow>
      (\<exists>objects. fst (StateParser_Parse json_Unmarshal ctx file clk) = Inr objects
         \<and> map TerraformObject.ID objects
             = concat (map (\<lambda>r. map (\<lambda>i. generateObjectID (TerraformFile.ID file)
                                          (StateResource.Type r) (StateResource.Name r) (int i))
                                   [0..<length (Instances r)])
                        (Resources state))))
   \<and> (fst (TerraformParser_Parse lib ctx' file' world
             :: ('e parser_error + 'j TerraformObject list) \<times> clock \<times> 'a allocator) = Inr objects' \<longrightarrow>
        list_all (\<lambda>obj. TerraformObject.ID obj
                           = generateObjectID (TerraformFile.ID file') (TerraformObject.Type obj)
                               (TerraformObject.Name obj) 0
                         \<and> FileID obj = TerraformFile.ID file')
          objects')"
proof (intro conjI impI)
  assume dec: "json_Unmarshal (Content file) = Inr state"
  show "\<exists>objects. fst (StateParser_Parse json_Unmarshal ctx file clk) = Inr objects
         \<and> map TerraformObject.ID objects
             = concat (map (\<lambda>r. map (\<lambda>i. generateObjectID (TerraformFile.ID file)
                                          (StateResource.Type r) (StateResource.Name r) (int i))
                                   [0..<length (Instances r)])
                        (Resources state))"
    using StateParser_Parse_map [where json_Unmarshal = json_Unmarshal and tf = "file"
        and state = state and f = TerraformObject.ID
        and h = "\<lambda>r k inst. generateObjectID (TerraformFile.ID file)
                   (StateResource.Type r) (StateResource.Name r) (int k)"
        and ctx = ctx and clk = clk] dec
    by (simp add: state_object_def map_index_zip_upt)
next
  assume "fst (TerraformParser_Parse lib ctx' file' world
             :: ('e parser_error + 'j TerraformObject list) \<times> clock \<times> 'a allocator) = Inr objects'"
  then show "list_all (\<lambda>obj. TerraformObject.ID obj
                           = generateObjectID (TerraformFile.ID file') (TerraformObject.Type obj)
                               (TerraformObject.Name obj) 0
                         \<and> FileID obj = TerraformFile.ID file')
          objects'"
    by (rule TerraformParser_Parse_all [rotated]) (simp add: block_object_def split: prod.splits)
qed

theorem object_id_inputs_witness:
  "stub_Unmarshal (Content stub_snapshot) = Inr stub_state
   \<and> (\<exists>objects. fst (StateParser_Parse stub_Unmarshal None stub_snapshot stub_clock) = Inr objects
         \<and> map TerraformObject.ID objects
             = [generateObjectID ''f1'' ''aws_instance'' ''web'' 0,
                generateObjectID ''f1'' ''aws_instance'' ''web'' 1,
                generateObjectID ''f1'' ''aws_s3_bucket'' ''web'' 0])
   \<and> fst (TerraformParser_Parse stub_hcl None stub_config (stub_clock, stub_heap)
            :: (unit parser_error + unit TerraformObject list) \<times> clock \<times> nat allocator)
       = Inr [block_object ''f4'' (''resource'', ''web'', ''aws_instance'', ''aws_instance.web'')
                (block_config stub_hcl 0 (Body stub_block)) 0 1]
   \<and> TerraformObject.ID (block_object ''f4'' (''resource'', ''web'', ''aws_instance'', ''aws_instance.web'')
                (block_config stub_hcl 0 (Body stub_block) :: string \<rightharpoonup> unit any) 0 1)
       = generateObjectID ''f4'' ''resource'' ''web'' 0"
proof -
  let ?obj = "block_object ''f4'' (''resource'', ''web'', ''aws_instance'', ''aws_instance.web'')
                (block_config stub_hcl 0 (Body stub_block) :: string \<rightharpoonup> unit any) 0 1"
  have ok: "stub_Unmarshal (Content stub_snapshot) = Inr stub_state"
    by (simp add: stub_Unmarshal_def stub_snapshot_def)
  have sw: "(block_switch stub_block :: unit parser_error + _)
      = Inr (''resource'', ''web'', ''aws_instance'', ''aws_instance.web'')"
    by (simp add: block_switch_def stub_block_def ObjectTypeResource_def)
  have tp: "fst (TerraformParser_Parse stub_hcl None stub_config (stub_clock, stub_heap)
            :: (unit parser_error + unit TerraformObject list) \<times> clock \<times> nat allocator) = Inr [?obj]"
  proof -
    have p: "ParseHCL stub_hcl (Content stub_config) (SourcePath stub_config) = (([], []), [])"
      by (simp add: stub_hcl_def)
    have c: "PartialContent stub_hcl ([], []) body_schema = ([stub_block], [])"
      by (simp add: stub_hcl_def)
    have e: "\<not> HasErrors stub_hcl []"
      by (simp add: stub_hcl_def)
    show ?thesis
      unfolding TerraformParser_Parse_fst [OF p c]
      by (simp add: e parseBlock_found [OF sw] stub_config_def stub_clock_def stub_heap_def)
  qed
  have ids: "concat (map (\<lambda>r. map (\<lambda>i. generateObjectID (TerraformFile.ID stub_snapshot)
                                          (StateResource.Type r) (StateResource.Name r) (int i))
                                   [0..<length (Instances r)])
                        (Resources stub_state))
      = [generateObjectID ''f1'' ''aws_instance'' ''web'' 0,
         generateObjectID ''f1'' ''aws_instance'' ''web'' 1,
         generateObjectID ''f1'' ''aws_s3_bucket'' ''web'' 0]"
    by (simp add: stub_state_def stub_snapshot_def upt_conv_Cons)
  have "list_all (\<lambda>obj. TerraformObject.ID obj
                           = generateObjectID (TerraformFile.ID stub_config) (TerraformObject.Type obj)
                               (TerraformObject.Name obj) 0
                         \<and> FileID obj = TerraformFile.ID stub_config) [?obj]"
    using object_id_inputs [of stub_Unmarshal stub_snapshot stub_state None stub_clock
        stub_hcl None stub_config "(stub_clock, stub_heap)" "[?obj]"] tp
    by blast
  then have "TerraformObject.ID ?obj = generateObjectID ''f4'' ''resource'' ''web'' 0"
    by (simp add: stub_config_def block_object_def)
  moreover have "\<exists>objects. fst (StateParser_Parse stub_Unmarshal None stub_snapshot stub_clock) = Inr objects
         \<and> map TerraformObject.ID objects
             = [generateObjectID ''f1'' ''aws_instance'' ''web'' 0,
                generateObjectID ''f1'' ''aws_instance'' ''web'' 1,
                generateObjectID ''f1'' ''aws_s3_bucket'' ''web'' 0]"
    using object_id_inputs [of stub_Unmarshal stub_snapshot stub_state None stub_clock
        stub_hcl None stub_config "(stub_clock, stub_heap)" "[?obj]"] ok
    unfolding ids by blast
  ultimately show ?thesis
    using ok tp by blast
qed

text \<open>
  The claim as stated fails in the direction from equal identifiers to equal inputs: the
  inputs are joined with colons before hashing, so the two records of a snapshot with the
  resource blocks \<open>a:b.c\<close> and \<open>a.b:c\<close> have the same identifier, and the same item, kind
  and instance index, but different names.
\<close>

theorem object_id_counterexample:
  "TerraformObject.ID (fst (resources_loop stub_snapshot stub_colon_resources [] stub_clock) ! 0)
     = TerraformObject.ID (fst (resources_loop stub_snapshot stub_colon_resources [] stub_clock) ! 1)
   \<and> FileID (fst (resources_loop stub_snapshot stub_colon_resources [] stub_clock) ! 0)
     = FileID (fst (resources_loop stub_snapshot stub_colon_resources [] stub_clock) ! 1)
   \<and> TerraformObject.Type (fst (resources_loop stub_snapshot stub_colon_resources [] stub_clock) ! 0)
     = TerraformObject.Type (fst (resources_loop stub_snapshot stub_colon_resources [] stub_clock) ! 1)
   \<and> TerraformObject.Name (fst (resources_loop stub_snapshot stub_colon_resources [] stub_clock) ! 0)
     \<noteq> TerraformObject.Name (fst (resources_loop stub_snapshot stub_colon_resources [] stub_clock) ! 1)"
  by (simp add: stub_colon_resources_def stub_snapshot_def time_Now_def state_object_def
      generateObjectID_def)

lemma StateParser_Parse_untimed:
  "untimed_result (fst (StateParser_Parse json_Unmarshal ctx tf clk))
     = untimed_result (fst (StateParser_Parse json_Unmarshal ctx' tf clk'))"
proof (cases "json_Unmarshal (Content tf)")
  case (Inl err)
  then show ?thesis
    by (simp add: StateParser_Parse_def)
next
  case (Inr state)
  let ?h = "\<lambda>r k inst. state_object tf r k inst 0 0"
  obtain objects where o: "fst (StateParser_Parse json_Unmarshal ctx tf clk) = Inr objects"
    and m: "map untimed objects
       = concat (map (\<lambda>r. map (\<lambda>(k, inst). ?h r k inst)
                              (zip [0..<length (Instances r)] (Instances r))) (Resources state))"
    using StateParser_Parse_map [where json_Unmarshal = json_Unmarshal and tf = tf
        and state = state and f = untimed and h = ?h and ctx = ctx and clk = clk] Inr
    by (auto simp: untimed_state_object)
  obtain objects' where o': "fst (StateParser_Parse json_Unmarshal ctx' tf clk') = Inr objects'"
    and m': "map untimed objects'
       = concat (map (\<lambda>r. map (\<lambda>(k, inst). ?h r k inst)
                              (zip [0..<length (Instances r)] (Instances r))) (Resources state))"
    using StateParser_Parse_map [where json_Unmarshal = json_Unmarshal and tf = tf
        and state = state and f = untimed and h = ?h and ctx = ctx' and clk = clk'] Inr
    by (auto simp: untimed_state_object)
  show ?thesis
    by (simp add: o o' m m' untimed_result_def)
qed

lemma TerraformParser_Parse_eq:
  assumes "ParseHCL lib (Content tf) (SourcePath tf) = (hclFile, diags)"
    and "PartialContent lib hclFile body_schema = (content, diags')"
    and "\<not> HasErrors lib diags" and "\<not> HasErrors lib diags'"
  shows "(TerraformParser_Parse lib ctx tf (clk, heap)
            :: ('e parser_error + 'j TerraformObject list) \<times> clock \<times> 'a allocator)
     = (fst (blocks_loop lib (heap 0) (TerraformFile.ID tf) content [] clk),
        snd (blocks_loop lib (heap 0) (TerraformFile.ID tf) content [] clk
               :: ('e parser_error + 'j TerraformObject list) \<times> clock),
        \<lambda>n. heap (Suc n))"
  by (simp add: TerraformParser_Parse_def NewParser_def assms split: prod.splits)

text \<open>
  C9, as the code has it. Two invocations of \<open>Parse\<close> on the same item, whatever the
  clock shows, wherever the allocator places the syntax tree and whatever the contexts,
  return the same error, or record lists of the same length that agree record by record:
  for the snapshot parser on every field but the two timestamps (creation and update),
  which are read from the clock; for the declarative-config parser on every field but
  the two timestamps and the values in the configuration, which are renderings of the
  expressions of a newly built syntax tree (the names of the attributes agree).
\<close>

theorem parse_twice_agreement:
  "untimed_result (fst (StateParser_Parse json_Unmarshal ctx file clk))
     = untimed_result (fst (StateParser_Parse json_Unmarshal ctx' file clk'))
   \<and> unvalued_result (fst (TerraformParser_Parse lib ctx file world
                            :: ('e parser_error + 'j TerraformObject list) \<times> clock \<times> 'a allocator))
     = unvalued_result (fst (TerraformParser_Parse lib ctx' file world'))"
  using StateParser_Parse_untimed TerraformParser_Parse_unvalued by blast

text \<open>
  The claim as stated fails. A second invocation on the same item, made with the clock
  and the allocator as the first invocation left them, returns records that differ from
  the first ones: for both parsers the timestamps are later, and for the
  declarative-config parser the records differ even with the timestamps taken out, as
  the renderings in the configuration show other addresses.
\<close>

theorem parse_twice_counterexample:
  "fst (StateParser_Parse stub_Unmarshal None stub_snapshot
          (snd (StateParser_Parse stub_Unmarshal None stub_snapshot stub_clock)))
     \<noteq> fst (StateParser_Parse stub_Unmarshal None stub_snapshot stub_clock)
   \<and> fst (TerraformParser_Parse stub_hcl None stub_config
          (snd (TerraformParser_Parse stub_hcl None stub_config (stub_clock, stub_heap)
                  :: (unit parser_error + unit TerraformObject list) \<times> clock \<times> nat allocator))
          :: (unit parser_error + unit TerraformObject list) \<times> clock \<times> nat allocator)
     \<noteq> fst (TerraformParser_Parse stub_hcl None stub_config (stub_clock, stub_heap))
   \<and> untimed_result (fst (TerraformParser_Parse stub_hcl None stub_config
          (snd (TerraformParser_Parse stub_hcl None stub_config (stub_clock, stub_heap)
                  :: (unit parser_error + unit TerraformObject list) \<times> clock \<times> nat allocator))
          :: (unit parser_error + unit TerraformObject list) \<times> clock \<times> nat allocator))
     \<noteq> untimed_result (fst (TerraformParser_Parse stub_hcl None stub_config (stub_clock, stub_heap)))"
proof -
  let ?found = "(''resource'', ''web'', ''aws_instance'', ''aws_instance.web'')"
  have sw: "(block_switch stub_block :: unit parser_error + _) = Inr ?found"
    by (simp add: block_switch_def stub_block_def ObjectTypeResource_def)
  have p: "ParseHCL stub_hcl (Content stub_config) (SourcePath stub_config) = (([], []), [])"
    by (simp add: stub_hcl_def)
  have c: "PartialContent stub_hcl ([], []) body_schema = ([stub_block], [])"
    by (simp add: stub_hcl_def)
  have e: "\<not> HasErrors stub_hcl []"
    by (simp add: stub_hcl_def)
  have ja: "JustAttributes stub_hcl (Body stub_block)
      = (map_of [(''ami'', ''ami-0c55b159''), (''instance_type'', ''t2.micro''), (''count'', ''1 / 0'')], [])"
    by (simp add: stub_hcl_def stub_block_def)
  have neq: "(block_config stub_hcl (Suc 0) (Body stub_block) :: string \<rightharpoonup> unit any)
      \<noteq> block_config stub_hcl 0 (Body stub_block)"
  proof
    assume "(block_config stub_hcl (Suc 0) (Body stub_block) :: string \<rightharpoonup> unit any)
      = block_config stub_hcl 0 (Body stub_block)"
    then have "(block_config stub_hcl (Suc 0) (Body stub_block) :: string \<rightharpoonup> unit any) ''ami''
      = block_config stub_hcl 0 (Body stub_block) ''ami''"
      by simp
    then show False
      unfolding block_config_eq [OF ja] by (simp add: stub_hcl_def)
  qed
  have 1: "fst (StateParser_Parse stub_Unmarshal None stub_snapshot
          (snd (StateParser_Parse stub_Unmarshal None stub_snapshot stub_clock)))
     \<noteq> fst (StateParser_Parse stub_Unmarshal None stub_snapshot stub_clock)"
    by (simp add: StateParser_Parse_def stub_Unmarshal_def stub_snapshot_def stub_state_def
        stub_clock_def time_Now_def state_object_def)
  have 2: "fst (TerraformParser_Parse stub_hcl None stub_config
          (snd (TerraformParser_Parse stub_hcl None stub_config (stub_clock, stub_heap)
                  :: (unit parser_error + unit TerraformObject list) \<times> clock \<times> nat allocator))
          :: (unit parser_error + unit TerraformObject list) \<times> clock \<times> nat allocator)
     \<noteq> fst (TerraformParser_Parse stub_hcl None stub_config (stub_clock, stub_heap))"
    by (simp add: TerraformParser_Parse_eq [OF p c e e] parseBlock_found [OF sw] block_object_def
        stub_clock_def)
  have 3: "untimed_result (fst (TerraformParser_Parse stub_hcl None stub_config
          (snd (TerraformParser_Parse stub_hcl None stub_config (stub_clock, stub_heap)
                  :: (unit parser_error + unit TerraformObject list) \<times> clock \<times> nat allocator))
          :: (unit parser_error + unit TerraformObject list) \<times> clock \<times> nat allocator))
     \<noteq> untimed_result (fst (TerraformParser_Parse stub_hcl None stub_config (stub_clock, stub_heap)))"
    using neq
    by (simp add: TerraformParser_Parse_eq [OF p c e e] parseBlock_found [OF sw] block_object_def
        untimed_result_def untimed_def stub_heap_def)
  show ?thesis
    by (rule conjI [OF 1 conjI [OF 2 3]])
qed

text \<open>
  C8, as the code has it. A block that decodes at the block-schema level (its type is one
  of the six of the schema and it has the labels of its type) yields exactly one record,
  whatever its attributes are. When the attributes of the body can be listed, the
  configuration of the record has every one of them, each mapped to the rendering of
  its expression (for the place of the syntax tree): no attribute is left out. When
  listing the attributes fails, the configuration is empty.
\<close>

theorem parseBlock_configuration:
  assumes "(block_switch block :: 'e parser_error + _) = Inr found"
    and "JustAttributes lib (Body block) = (attrs, diags)"
  shows "\<exists>obj. (parseBlock lib place fileID block clk :: ('e parser_error + 'j TerraformObject) \<times> clock)
               = (Inr obj, \<lambda>n. clk (Suc (Suc n)))
           \<and> (blocks_loop lib place fileID [block] [] clk
                :: ('e parser_error + 'j TerraformObject list) \<times> clock)
               = (Inr [obj], \<lambda>n. clk (Suc (Suc n)))
           \<and> Configuration obj
               = (if HasErrors lib diags then Map.empty
                  else (\<lambda>name. map_option (\<lambda>expr. AnyString (Sprintf_v lib place expr)) (attrs name)))
           \<and> dom (Configuration obj) = (if HasErrors lib diags then {} else dom attrs)"
proof -
  let ?obj = "block_object fileID found (block_config lib place (Body block) :: string \<rightharpoonup> 'j any)
                (clk 0) (clk 1)"
  have p: "(parseBlock lib place fileID block clk :: ('e parser_error + 'j TerraformObject) \<times> clock)
        = (Inr ?obj, \<lambda>n. clk (Suc (Suc n)))"
    by (rule parseBlock_found [OF assms(1)])
  have l: "(blocks_loop lib place fileID [block] [] clk
                :: ('e parser_error + 'j TerraformObject list) \<times> clock)
        = (Inr [?obj], \<lambda>n. clk (Suc (Suc n)))"
    by (simp add: p)
  have c: "Configuration ?obj
        = (if HasErrors lib diags then Map.empty
           else (\<lambda>name. map_option (\<lambda>expr. AnyString (Sprintf_v lib place expr)) (attrs name)))"
    using block_config_eq [OF assms(2), of place, where ?'j = 'j]
    by (cases found) (simp add: block_object_def)
  have d: "dom (Configuration ?obj) = (if HasErrors lib diags then {} else dom attrs)"
    unfolding c by (auto simp: dom_def)
  show ?thesis
    using p l c d by blast
qed

theorem parseBlock_configuration_witness:
  "(block_switch stub_block :: unit parser_error + _)
     = Inr (''resource'', ''web'', ''aws_instance'', ''aws_instance.web'')
   \<and> JustAttributes stub_hcl (Body stub_block)
     = (map_of [(''ami'', ''ami-0c55b159''), (''instance_type'', ''t2.micro''), (''count'', ''1 / 0'')], [])
   \<and> (\<exists>obj. (parseBlock stub_hcl 0 ''f4'' stub_block stub_clock
                 :: (unit parser_error + unit TerraformObject) \<times> clock)
               = (Inr obj, \<lambda>n. stub_clock (Suc (Suc n)))
           \<and> dom (Configuration obj) = {''ami'', ''instance_type'', ''count''})"
proof -
  let ?attrs = "map_of [(''ami'', ''ami-0c55b159''), (''instance_type'', ''t2.micro''), (''count'', ''1 / 0'')]"
  have sw: "(block_switch stub_block :: unit parser_error + _)
      = Inr (''resource'', ''web'', ''aws_instance'', ''aws_instance.web'')"
    by (simp add: block_switch_def stub_block_def ObjectTypeResource_def)
  have ja: "JustAttributes stub_hcl (Body stub_block) = (?attrs, [])"
    by (simp add: stub_hcl_def stub_block_def)
  have he: "\<not> HasErrors stub_hcl []"
    by (simp add: stub_hcl_def)
  have d: "dom ?attrs = {''ami'', ''instance_type'', ''count''}"
    by (simp add: dom_def) auto
  show ?thesis
    using sw ja parseBlock_configuration [OF sw ja, of 0 "''f4''" stub_clock, where ?'j = unit] he d
    by auto
qed

text \<open>
  The claim as stated fails. The block \<open>stub_block\<close> has the attributes \<open>ami\<close> and
  \<open>instance_type\<close> and the attribute \<open>count\<close> with the expression \<open>1 / 0\<close>, which has no
  value: its record keeps \<open>count\<close>, mapped to the rendering of the expression. The same block with a nested
  block, for which listing the attributes fails, gives a record with no attribute at
  all. In neither case does the record hold the two sound attributes without the third.
\<close>

theorem parseBlock_configuration_counterexample:
  "(case fst (parseBlock stub_hcl 0 ''f4'' stub_block stub_clock
                :: (unit parser_error + unit TerraformObject) \<times> clock) of
      Inr obj \<Rightarrow> Configuration obj ''count''
    | Inl err \<Rightarrow> None) = Some (AnyString ''&{1 / 0 0xc00001f0e0}'')
   \<and> (case fst (parseBlock stub_hcl 0 ''f4'' stub_block_nested stub_clock
                :: (unit parser_error + unit TerraformObject) \<times> clock) of
      Inr obj \<Rightarrow> (Configuration obj ''ami'', Configuration obj ''instance_type'',
                    Configuration obj ''count'')
    | Inl err \<Rightarrow> (None, None, Some (AnyString []))) = (None, None, None)"
proof -
  have sw: "(block_switch stub_block :: unit parser_error + _)
      = Inr (''resource'', ''web'', ''aws_instance'', ''aws_instance.web'')"
    by (simp add: block_switch_def stub_block_def ObjectTypeResource_def)
  have sw': "(block_switch stub_block_nested :: unit parser_error + _)
      = Inr (''resource'', ''web'', ''aws_instance'', ''aws_instance.web'')"
    by (simp add: block_switch_def stub_block_nested_def ObjectTypeResource_def)
  have ja: "JustAttributes stub_hcl (Body stub_block)
      = (map_of [(''ami'', ''ami-0c55b159''), (''instance_type'', ''t2.micro''), (''count'', ''1 / 0'')], [])"
    by (simp add: stub_hcl_def stub_block_def)
  have ja': "JustAttributes stub_hcl (Body stub_block_nested)
      = (map_of [(''ami'', ''ami-0c55b159''), (''instance_type'', ''t2.micro''), (''count'', ''1 / 0'')],
         [''Unexpected block: tags''])"
    by (simp add: stub_hcl_def stub_block_nested_def)
  have c: "(block_config stub_hcl 0 (Body stub_block) :: string \<rightharpoonup> unit any) ''count''
      = Some (AnyString ''&{1 / 0 0xc00001f0e0}'')"
    unfolding block_config_eq [OF ja] by (simp add: stub_hcl_def)
  have c': "(block_config stub_hcl 0 (Body stub_block_nested) :: string \<rightharpoonup> unit any) = Map.empty"
    unfolding block_config_eq [OF ja'] by (simp add: stub_hcl_def)
  show ?thesis
    by (simp add: parseBlock_found [OF sw] parseBlock_found [OF sw'] block_object_def c c')
qed

end
